theory Spec2Isabelle
  imports Complex_Main
begin

section \<open>Errors\<close>

text \<open>
  Every exception the module can raise is a value. The argument is the message
  (for \<open>NameError\<close> and \<open>KeyError\<close>: the offending name).
\<close>

datatype error =
    ValueError string
  | TypeError string
  | NameError string
  | AttributeError string
  | KeyError string
  | IndexError string

section \<open>Error messages and supported coordinate names\<close>

definition APPLY_EXPOSURE_TIME_ERROR :: string where
  "APPLY_EXPOSURE_TIME_ERROR =
     ''Exposure time correction has probably already '' @
     ''been applied since the unit already includes '' @
     ''inverse time. To apply exposure time correction '' @
     ''anyway, set 'force' kwarg to True.''"

definition UNDO_EXPOSURE_TIME_ERROR :: string where
  "UNDO_EXPOSURE_TIME_ERROR =
     ''Exposure time correction has probably already '' @
     ''been undone since the unit does not include '' @
     ''inverse time. To undo exposure time correction '' @
     ''anyway, set 'force' kwarg to True.''"

definition AXIS_NOT_FOUND_ERROR :: string where
  "AXIS_NOT_FOUND_ERROR =
     '' axis not found. If in extra_coords, axis name must be supported: ''"

text \<open>\<open>str.upper\<close> and \<open>str.capitalize\<close>, on the ASCII letters the aliases are made of.\<close>

definition upper_char :: "char \<Rightarrow> char" where
  "upper_char c =
     (let n = (of_char c :: nat) in if 97 \<le> n \<and> n \<le> 122 then char_of (n - 32) else c)"

definition lower_char :: "char \<Rightarrow> char" where
  "lower_char c =
     (let n = (of_char c :: nat) in if 65 \<le> n \<and> n \<le> 90 then char_of (n + 32) else c)"

definition upper :: "string \<Rightarrow> string" where
  "upper s = map upper_char s"

definition capitalize :: "string \<Rightarrow> string" where
  "capitalize s = (case s of [] \<Rightarrow> [] | c # cs \<Rightarrow> upper_char c # map lower_char cs)"

text \<open>
  \<open>NAMES += [name.upper() for name in NAMES] + [name.capitalize() for name in NAMES]\<close>:
  the right-hand side is built from the list before the extension.
\<close>

definition with_case_variants :: "string list \<Rightarrow> string list" where
  "with_case_variants names = names @ (map upper names @ map capitalize names)"

definition SUPPORTED_LONGITUDE_NAMES :: "string list" where
  "SUPPORTED_LONGITUDE_NAMES = with_case_variants
     [''custom:pos.helioprojective.lon'', ''pos.helioprojective.lon'',
      ''longitude'', ''lon'']"

definition SUPPORTED_LATITUDE_NAMES :: "string list" where
  "SUPPORTED_LATITUDE_NAMES = with_case_variants
     [''custom:pos.helioprojective.lat'', ''pos.helioprojective.lat'',
      ''latitude'', ''lat'']"

definition SUPPORTED_SPECTRAL_NAMES :: "string list" where
  "SUPPORTED_SPECTRAL_NAMES = with_case_variants
     [''em.wl'', ''em.energy'', ''em.freq'', ''wavelength'', ''energy'',
      ''frequency'', ''freq'', ''lambda'', ''spectral'']"

definition SUPPORTED_TIME_NAMES :: "string list" where
  "SUPPORTED_TIME_NAMES = with_case_variants [''time'']"

definition SUPPORTED_EXPOSURE_NAMES :: "string list" where
  "SUPPORTED_EXPOSURE_NAMES = with_case_variants
     [''exposure time'', ''exposure_time'', ''exposure times'',
      ''exposure_times'', ''exp time'', ''exp_time'', ''exp times'', ''exp_times'']"

section \<open>Axis-name resolution\<close>

text \<open>
  \<open>np.isin(names_array, supported_names)\<close>: one truth value per element of
  \<open>names_array\<close>. Labels are strings; an empty slot of the physical-type list is a
  label outside every supported set.
\<close>

definition isin :: "string list \<Rightarrow> string list \<Rightarrow> bool list" where
  "isin names_array supported_names = map (\<lambda>n. n \<in> set supported_names) names_array"

text \<open>\<open>np.arange(n)[mask]\<close>: the indices at which the mask is true, ascending.\<close>

definition masked_arange :: "nat \<Rightarrow> bool list \<Rightarrow> nat list" where
  "masked_arange n msk = filter (\<lambda>i. msk ! i) [0..<n]"

text \<open>
  \<open>int(a)\<close> on a one-dimensional integer array: its only element when it has exactly
  one, a \<open>TypeError\<close> otherwise.
\<close>

definition int_of_array :: "nat list \<Rightarrow> error + nat" where
  "int_of_array a =
     (case a of
        [i] \<Rightarrow> Inr i
      | _ \<Rightarrow> Inl (TypeError ''only size-1 arrays can be converted to Python scalars''))"

text \<open>
  \<open>_find_name_in_array\<close>. The function returns \<open>None\<close> by falling off its end when
  nothing matches.
\<close>

definition find_name_in_array :: "string list \<Rightarrow> string list \<Rightarrow> error + string option" where
  "find_name_in_array supported_names names_array =
     (let name_index = isin names_array supported_names in
      if length (filter id name_index) > 0 then
        (case int_of_array (masked_arange (length names_array) name_index) of
           Inl e \<Rightarrow> Inl e
         | Inr i \<Rightarrow> Inr (Some (names_array ! i)))
      else Inr None)"

text \<open>Python truthiness of a value that is \<open>None\<close> or a string.\<close>

definition truthy :: "string option \<Rightarrow> bool" where
  "truthy v = (case v of None \<Rightarrow> False | Some s \<Rightarrow> s \<noteq> [])"

text \<open>
  \<open>_find_axis_name\<close>. The side table is \<open>None\<close> or a dict, held as the list of its
  items in key order (\<open>elif extra_coords\<close> is false for \<open>None\<close> and for the empty
  dict); the result is the pair \<open>(axis_name, loc)\<close>.
\<close>

definition find_axis_name ::
  "string list \<Rightarrow> string list \<Rightarrow> (string \<times> 'v) list option
     \<Rightarrow> error + (string option \<times> string option)" where
  "find_axis_name supported_names world_axis_physical_types extra_coords =
     (case find_name_in_array supported_names world_axis_physical_types of
        Inl e \<Rightarrow> Inl e
      | Inr axis_name \<Rightarrow>
          if truthy axis_name then Inr (axis_name, Some ''wcs'')
          else
            (case extra_coords of
               None \<Rightarrow> Inr (axis_name, None)
             | Some items \<Rightarrow>
                 if items = [] then Inr (axis_name, None)
                 else
                   (case find_name_in_array supported_names (map fst items) of
                      Inl e \<Rightarrow> Inl e
                    | Inr axis_name' \<Rightarrow>
                        if truthy axis_name' then Inr (axis_name', Some ''extra_coords'')
                        else Inr (axis_name', None))))"

section \<open>Arrays\<close>

text \<open>
  A \<open>numpy.ndarray\<close>: its shape and its elements in row-major order. The element type
  is left open: the module only divides and multiplies elements, with whatever
  arithmetic the array's dtype has.
\<close>

record 'a ndarray =
  shape :: "nat list"
  flat :: "'a list"

definition wf_array :: "'a ndarray \<Rightarrow> bool" where
  "wf_array a = (length (flat a) = prod_list (shape a))"

text \<open>
  Broadcasting of two shapes, aligned at their last axes: two extents are compatible
  when they are equal or one of them is 1. The helper works on the reversed shapes.
\<close>

fun broadcast_rev :: "nat list \<Rightarrow> nat list \<Rightarrow> nat list option" where
  "broadcast_rev [] ys = Some ys"
| "broadcast_rev (x # xs) [] = Some (x # xs)"
| "broadcast_rev (x # xs) (y # ys) =
     (if x = y \<or> y = 1 then map_option ((#) x) (broadcast_rev xs ys)
      else if x = 1 then map_option ((#) y) (broadcast_rev xs ys)
      else None)"

definition broadcast_shapes :: "nat list \<Rightarrow> nat list \<Rightarrow> nat list option" where
  "broadcast_shapes s t = map_option rev (broadcast_rev (rev s) (rev t))"

text \<open>All multi-indices of a shape, in row-major order.\<close>

fun all_indices :: "nat list \<Rightarrow> nat list list" where
  "all_indices [] = [[]]"
| "all_indices (d # ds) = concat (map (\<lambda>i. map ((#) i) (all_indices ds)) [0..<d])"

text \<open>The row-major offset of a multi-index.\<close>

definition ravel :: "nat list \<Rightarrow> nat list \<Rightarrow> nat" where
  "ravel s idx = foldl (\<lambda>acc (d, i). acc * d + i) 0 (zip s idx)"

text \<open>
  The index an operand of shape \<open>s\<close> is read at for the result index \<open>idx\<close>: the
  trailing axes of \<open>idx\<close>, with 0 along every axis of extent 1.
\<close>

definition operand_index :: "nat list \<Rightarrow> nat list \<Rightarrow> nat list" where
  "operand_index s idx =
     map (\<lambda>(d, i). if d = 1 then 0 else i) (zip s (drop (length idx - length s) idx))"

definition item :: "'a ndarray \<Rightarrow> nat list \<Rightarrow> 'a" where
  "item a idx = flat a ! ravel (shape a) (operand_index (shape a) idx)"

text \<open>An element-wise binary operation of two arrays, with broadcasting.\<close>

definition elementwise ::
  "('a \<Rightarrow> 'a \<Rightarrow> 'a) \<Rightarrow> 'a ndarray \<Rightarrow> 'a ndarray \<Rightarrow> error + 'a ndarray" where
  "elementwise f a b =
     (case broadcast_shapes (shape a) (shape b) of
        None \<Rightarrow> Inl (ValueError ''operands could not be broadcast together'')
      | Some s \<Rightarrow>
          Inr \<lparr>shape = s, flat = map (\<lambda>idx. f (item a idx) (item b idx)) (all_indices s)\<rparr>)"

text \<open>
  A coordinate value with its unit taken off: a scalar (\<open>np.isscalar\<close> holds) or an
  array.
\<close>

datatype 'a coord_value = Scalar 'a | Array "'a ndarray"

text \<open>\<open>old_data / exposure_time\<close> and \<open>old_data * exposure_time\<close>.\<close>

definition array_op ::
  "('a \<Rightarrow> 'a \<Rightarrow> 'a) \<Rightarrow> 'a ndarray \<Rightarrow> 'a coord_value \<Rightarrow> error + 'a ndarray" where
  "array_op f old_data exposure_time =
     (case exposure_time of
        Scalar e \<Rightarrow> Inr (old_data\<lparr>flat := map (\<lambda>x. f x e) (flat old_data)\<rparr>)
      | Array e \<Rightarrow> elementwise f old_data e)"

text \<open>\<open>a[:, np.newaxis]\<close> and \<open>a[:, np.newaxis, np.newaxis]\<close>.\<close>

definition newaxis1 :: "'a ndarray \<Rightarrow> error + 'a ndarray" where
  "newaxis1 a =
     (case shape a of
        [] \<Rightarrow> Inl (IndexError ''too many indices for array'')
      | n # rest \<Rightarrow> Inr (a\<lparr>shape := n # 1 # rest\<rparr>))"

definition newaxis2 :: "'a ndarray \<Rightarrow> error + 'a ndarray" where
  "newaxis2 a =
     (case shape a of
        [] \<Rightarrow> Inl (IndexError ''too many indices for array'')
      | n # rest \<Rightarrow> Inr (a\<lparr>shape := n # 1 # 1 # rest\<rparr>))"

section \<open>Units\<close>

text \<open>
  A unit of the units library in decomposed form: a scale and the power of every
  irreducible base unit (0 for a base that does not occur). \<open>decompose().bases\<close> lists
  the bases of non-zero power.
\<close>

record astropy_unit =
  unit_scale :: rat
  unit_powers :: "string \<Rightarrow> rat"

definition u_s :: astropy_unit where
  "u_s = \<lparr>unit_scale = 1, unit_powers = (\<lambda>_. 0)(''s'' := 1)\<rparr>"

definition unit_mul :: "astropy_unit \<Rightarrow> astropy_unit \<Rightarrow> astropy_unit" where
  "unit_mul a b =
     \<lparr>unit_scale = unit_scale a * unit_scale b,
      unit_powers = (\<lambda>x. unit_powers a x + unit_powers b x)\<rparr>"

definition unit_div :: "astropy_unit \<Rightarrow> astropy_unit \<Rightarrow> astropy_unit" where
  "unit_div a b =
     \<lparr>unit_scale = unit_scale a / unit_scale b,
      unit_powers = (\<lambda>x. unit_powers a x - unit_powers b x)\<rparr>"

text \<open>\<open>u.s in unit.decompose().bases\<close>.\<close>

definition s_in_bases :: "astropy_unit \<Rightarrow> bool" where
  "s_in_bases un = (unit_powers un ''s'' \<noteq> 0)"

section \<open>Exposure-time arithmetic\<close>

definition and_then :: "error + 'a \<Rightarrow> ('a \<Rightarrow> error + 'b) \<Rightarrow> error + 'b" where
  "and_then r k = (case r of Inl e \<Rightarrow> Inl e | Inr x \<Rightarrow> k x)"

text \<open>A list comprehension whose body may raise: the first failure ends it.\<close>

fun comprehension :: "('a \<Rightarrow> error + 'b) \<Rightarrow> 'a list \<Rightarrow> error + 'b list" where
  "comprehension f [] = Inr []"
| "comprehension f (x # xs) =
     and_then (f x) (\<lambda>y. and_then (comprehension f xs) (\<lambda>ys. Inr (y # ys)))"

text \<open>\<open>_calculate_exposure_time_correction\<close>.\<close>

definition calculate_exposure_time_correction ::
  "('a::{inverse,times}) ndarray list \<Rightarrow> astropy_unit \<Rightarrow> 'a coord_value \<Rightarrow> bool
     \<Rightarrow> error + ('a ndarray list \<times> astropy_unit)" where
  "calculate_exposure_time_correction old_data_arrays old_unit exposure_time force =
     (if \<not> force \<and> s_in_bases old_unit then Inl (ValueError APPLY_EXPOSURE_TIME_ERROR)
      else
        and_then
          (comprehension (\<lambda>old_data. array_op (\<lambda>x e. x / e) old_data exposure_time)
             old_data_arrays)
          (\<lambda>new_data_arrays. Inr (new_data_arrays, unit_div old_unit u_s)))"

text \<open>\<open>_uncalculate_exposure_time_correction\<close>.\<close>

definition uncalculate_exposure_time_correction ::
  "('a::{inverse,times}) ndarray list \<Rightarrow> astropy_unit \<Rightarrow> 'a coord_value \<Rightarrow> bool
     \<Rightarrow> error + ('a ndarray list \<times> astropy_unit)" where
  "uncalculate_exposure_time_correction old_data_arrays old_unit exposure_time force =
     (if \<not> force \<and> s_in_bases (unit_mul old_unit u_s)
      then Inl (ValueError UNDO_EXPOSURE_TIME_ERROR)
      else
        and_then
          (comprehension (\<lambda>old_data. array_op (\<lambda>x e. x * e) old_data exposure_time)
             old_data_arrays)
          (\<lambda>new_data_arrays. Inr (new_data_arrays, unit_mul old_unit u_s)))"

section \<open>The cube\<close>

text \<open>
  A \<open>SpectrogramCube\<close>: the data, uncertainty and unit held by the array container,
  the physical types of the coordinate system's axes and its coordinate lookup
  (\<open>axis_world_coords\<close>), the side table (\<open>extra_coords\<close>, \<open>None\<close> or a dict from a name
  to its stored value), and the five resolved names with their locations. Coordinate
  values are held with their unit taken off; an exposure time is held in seconds, which
  is what \<open>exposure_time.to(u.s).value\<close> reads. The cube carries a unit.
\<close>

record 'a cube =
  data :: "'a ndarray"
  uncertainty :: "'a ndarray option"
  unit :: astropy_unit
  world_axis_physical_types :: "string list"
  axis_world_coords :: "string \<Rightarrow> 'a coord_value"
  extra_coords :: "(string \<times> 'a coord_value) list option"
  longitude_name :: "string option"
  longitude_loc :: "string option"
  latitude_name :: "string option"
  latitude_loc :: "string option"
  spectral_name :: "string option"
  spectral_loc :: "string option"
  time_name :: "string option"
  time_loc :: "string option"
  exposure_time_name :: "string option"
  exposure_time_loc :: "string option"

text \<open>
  Modelled from the spec: the validation done by the constructor of the array
  container (\<open>NDCube.__init__\<close>, which \<open>SpectrogramCube.__init__\<close> calls first and
  which is not part of this module). Construction fails on a mismatch between the data
  and the coordinate system: the data must have as many axes as the coordinate system
  has physical types. The text of the message is the container's.
\<close>

definition NDCube_init :: "'a ndarray \<Rightarrow> string list \<Rightarrow> error option" where
  "NDCube_init data' wcs_types =
     (if length (shape data') \<noteq> length wcs_types
      then Some (ValueError ''data and coordinate system differ in their number of axes'')
      else None)"

text \<open>
  \<open>SpectrogramCube.__init__\<close>: the container's constructor runs first and stores the
  arguments, then the five resolutions run in the order of the source.
\<close>

definition SpectrogramCube_init ::
  "'a ndarray \<Rightarrow> string list \<Rightarrow> (string \<Rightarrow> 'a coord_value)
     \<Rightarrow> (string \<times> 'a coord_value) list option \<Rightarrow> astropy_unit \<Rightarrow> 'a ndarray option
     \<Rightarrow> error + 'a cube" where
  "SpectrogramCube_init data' wcs_types wcs_coords extra_coords' unit' uncertainty' =
     and_then (case NDCube_init data' wcs_types of Some e \<Rightarrow> Inl e | None \<Rightarrow> Inr ())
       (\<lambda>_.
     and_then (find_axis_name SUPPORTED_LONGITUDE_NAMES wcs_types extra_coords')
       (\<lambda>(lon_name, lon_loc).
     and_then (find_axis_name SUPPORTED_LATITUDE_NAMES wcs_types extra_coords')
       (\<lambda>(lat_name, lat_loc).
     and_then (find_axis_name SUPPORTED_SPECTRAL_NAMES wcs_types extra_coords')
       (\<lambda>(spec_name, spec_loc).
     and_then (find_axis_name SUPPORTED_TIME_NAMES wcs_types extra_coords')
       (\<lambda>(t_name, t_loc).
     and_then (find_axis_name SUPPORTED_EXPOSURE_NAMES wcs_types extra_coords')
       (\<lambda>(exp_name, exp_loc).
     Inr \<lparr>data = data', uncertainty = uncertainty', unit = unit',
          world_axis_physical_types = wcs_types, axis_world_coords = wcs_coords,
          extra_coords = extra_coords',
          longitude_name = lon_name, longitude_loc = lon_loc,
          latitude_name = lat_name, latitude_loc = lat_loc,
          spectral_name = spec_name, spectral_loc = spec_loc,
          time_name = t_name, time_loc = t_loc,
          exposure_time_name = exp_name, exposure_time_loc = exp_loc\<rparr>))))))"

text \<open>A cube is constructed when it is what the constructor builds from its own parts.\<close>

definition constructed :: "'a cube \<Rightarrow> bool" where
  "constructed c =
     (SpectrogramCube_init (data c) (world_axis_physical_types c) (axis_world_coords c)
        (extra_coords c) (unit c) (uncertainty c) = Inr c)"

text \<open>
  \<open>_get_axis_coord\<close>: the function returns \<open>None\<close> when the location is neither of the
  two strings.
\<close>

definition get_axis_coord ::
  "'a cube \<Rightarrow> string \<Rightarrow> string option \<Rightarrow> error + 'a coord_value option" where
  "get_axis_coord c axis_name coord_loc =
     (if coord_loc = Some ''wcs'' then Inr (Some (axis_world_coords c axis_name))
      else if coord_loc = Some ''extra_coords'' then
        (case extra_coords c of
           None \<Rightarrow> Inl (TypeError ''NoneType object is not subscriptable'')
         | Some items \<Rightarrow>
             (case map_of items axis_name of
                None \<Rightarrow> Inl (KeyError axis_name)
              | Some v \<Rightarrow> Inr (Some v)))
      else Inr None)"

text \<open>
  The five accessors. \<open>array_str\<close> is the text the array library prints for an array
  of names (\<open>f"{NAMES}"\<close>). \<open>time\<close> and \<open>lat\<close> format the names
  \<open>SUPPORTED_TIMES_NAMES\<close> and \<open>SUPPORTED_LATITUDE_NAME\<close>, which the module does not
  define: evaluating them raises \<open>NameError\<close>.
\<close>

definition spectral_axis ::
  "(string list \<Rightarrow> string) \<Rightarrow> 'a cube \<Rightarrow> error + 'a coord_value option" where
  "spectral_axis array_str c =
     (if \<not> truthy (spectral_name c)
      then Inl (ValueError
                  (''Spectral'' @ AXIS_NOT_FOUND_ERROR @ array_str SUPPORTED_SPECTRAL_NAMES))
      else
        (case spectral_name c of
           None \<Rightarrow> Inr None
         | Some n \<Rightarrow> get_axis_coord c n (spectral_loc c)))"

definition time ::
  "(string list \<Rightarrow> string) \<Rightarrow> 'a cube \<Rightarrow> error + 'a coord_value option" where
  "time array_str c =
     (if \<not> truthy (time_name c)
      then Inl (NameError ''SUPPORTED_TIMES_NAMES'')
      else
        (case time_name c of
           None \<Rightarrow> Inr None
         | Some n \<Rightarrow> get_axis_coord c n (time_loc c)))"

definition exposure_time ::
  "(string list \<Rightarrow> string) \<Rightarrow> 'a cube \<Rightarrow> error + 'a coord_value option" where
  "exposure_time array_str c =
     (if \<not> truthy (exposure_time_name c)
      then Inl (ValueError
                  (''Exposure time'' @ AXIS_NOT_FOUND_ERROR
                     @ array_str SUPPORTED_EXPOSURE_NAMES))
      else
        (case exposure_time_name c of
           None \<Rightarrow> Inr None
         | Some n \<Rightarrow> get_axis_coord c n (exposure_time_loc c)))"

definition lon ::
  "(string list \<Rightarrow> string) \<Rightarrow> 'a cube \<Rightarrow> error + 'a coord_value option" where
  "lon array_str c =
     (if \<not> truthy (longitude_name c)
      then Inl (ValueError
                  (''Longitude'' @ AXIS_NOT_FOUND_ERROR
                     @ array_str SUPPORTED_LONGITUDE_NAMES))
      else
        (case longitude_name c of
           None \<Rightarrow> Inr None
         | Some n \<Rightarrow> get_axis_coord c n (longitude_loc c)))"

definition lat ::
  "(string list \<Rightarrow> string) \<Rightarrow> 'a cube \<Rightarrow> error + 'a coord_value option" where
  "lat array_str c =
     (if \<not> truthy (latitude_name c)
      then Inl (NameError ''SUPPORTED_LATITUDE_NAME'')
      else
        (case latitude_name c of
           None \<Rightarrow> Inr None
         | Some n \<Rightarrow> get_axis_coord c n (latitude_loc c)))"

section \<open>Exposure-time correction\<close>

text \<open>\<open>str.format\<close> of a natural number: its decimal digits.\<close>

definition digit_char :: "nat \<Rightarrow> char" where
  "digit_char d = char_of (48 + d)"

fun str_nat :: "nat \<Rightarrow> string" where
  "str_nat n = (if n < 10 then [digit_char n] else str_nat (n div 10) @ [digit_char (n mod 10)])"

declare str_nat.simps [simp del]

text \<open>
  \<open>self.dimensions\<close> is the one-dimensional array of the data's extents, so
  \<open>len(self.dimensions)\<close> is the number of axes and \<open>self.dimensions.shape\<close> has one
  entry.
\<close>

definition dimensions :: "'a cube \<Rightarrow> nat ndarray" where
  "dimensions c = \<lparr>shape = [length (shape (data c))], flat = shape (data c)\<rparr>"

text \<open>
  The reshaping of a non-scalar exposure time, by the number of axes of the data.
\<close>

definition reshape_exposure_time ::
  "'a cube \<Rightarrow> 'a coord_value \<Rightarrow> error + 'a coord_value" where
  "reshape_exposure_time c exposure_time_s =
     (case exposure_time_s of
        Scalar e \<Rightarrow> Inr (Scalar e)
      | Array a \<Rightarrow>
          if length (flat (dimensions c)) = 1 then Inr (Array a)
          else if length (flat (dimensions c)) = 2 then
            and_then (newaxis1 a) (\<lambda>a'. Inr (Array a'))
          else if length (flat (dimensions c)) = 3 then
            and_then (newaxis2 a) (\<lambda>a'. Inr (Array a'))
          else
            Inl (ValueError
                   (''SpectrogramCube dimensions must be 2 or 3. Dimensions=''
                      @ str_nat (length (shape (dimensions c))))))"

text \<open>
  \<open>apply_exposure_time_correction\<close>. The arguments of the call to the arithmetic are
  evaluated after the reshaping, so a cube without uncertainty fails on
  \<open>self.uncertainty.array\<close> there. The new cube is built by the constructor from the
  new arrays and unit and the unchanged coordinate system and side table.
\<close>

definition apply_exposure_time_correction ::
  "(string list \<Rightarrow> string) \<Rightarrow> ('a::{inverse,times}) cube \<Rightarrow> bool \<Rightarrow> bool
     \<Rightarrow> error + 'a cube" where
  "apply_exposure_time_correction array_str c undo force =
     and_then (exposure_time array_str c)
       (\<lambda>et.
          case et of
            None \<Rightarrow> Inl (AttributeError ''NoneType object has no attribute to'')
          | Some exposure_time_s \<Rightarrow>
              and_then (reshape_exposure_time c exposure_time_s)
                (\<lambda>exposure_time_s'.
                   case uncertainty c of
                     None \<Rightarrow> Inl (AttributeError ''NoneType object has no attribute array'')
                   | Some uncertainty_array \<Rightarrow>
                       and_then
                         (if undo
                          then uncalculate_exposure_time_correction
                                 [data c, uncertainty_array] (unit c) exposure_time_s' force
                          else calculate_exposure_time_correction
                                 [data c, uncertainty_array] (unit c) exposure_time_s' force)
                         (\<lambda>(new_data_arrays, new_unit).
                            case new_data_arrays of
                              new_data # new_uncertainty # _ \<Rightarrow>
                                SpectrogramCube_init new_data (world_axis_physical_types c)
                                  (axis_world_coords c) (extra_coords c) new_unit
                                  (Some new_uncertainty)
                            | _ \<Rightarrow> Inl (IndexError ''list index out of range''))))"

section \<open>Reading the result of a correction\<close>

text \<open>
  The exposure value that meets the element at multi-index \<open>idx\<close> under broadcasting,
  and the condition that broadcasting the exposure time against an array of shape \<open>s\<close>
  gives shape \<open>s\<close> again.
\<close>

definition exposure_at :: "'a coord_value \<Rightarrow> nat list \<Rightarrow> 'a" where
  "exposure_at e idx = (case e of Scalar x \<Rightarrow> x | Array b \<Rightarrow> item b idx)"

definition broadcasts_to :: "'a coord_value \<Rightarrow> nat list \<Rightarrow> bool" where
  "broadcasts_to e s =
     (case e of Scalar _ \<Rightarrow> True | Array b \<Rightarrow> broadcast_shapes s (shape b) = Some s)"

text \<open>
  The shape that broadcasting the exposure time against an array of shape \<open>s\<close> gives,
  if the two are compatible.
\<close>

definition broadcast_result :: "nat list \<Rightarrow> 'a coord_value \<Rightarrow> nat list option" where
  "broadcast_result s e =
     (case e of Scalar _ \<Rightarrow> Some s | Array b \<Rightarrow> broadcast_shapes s (shape b))"

text \<open>Row \<open>i\<close> of the elements of a two-dimensional array with \<open>m\<close> columns.\<close>

definition row :: "nat \<Rightarrow> nat \<Rightarrow> 'a list \<Rightarrow> 'a list" where
  "row m i xs = take m (drop (i * m) xs)"

section \<open>Example cubes\<close>

text \<open>
  A cube over the physical types \<open>em.wl, time\<close> whose side table holds the exposure
  time under the key \<open>exposure time\<close>, with the names the constructor resolves for it;
  and the unit of counts.
\<close>

definition example_cube ::
  "'a ndarray \<Rightarrow> 'a ndarray option \<Rightarrow> astropy_unit \<Rightarrow> 'a coord_value \<Rightarrow> 'a cube" where
  "example_cube d unc un e =
     \<lparr>data = d, uncertainty = unc, unit = un,
      world_axis_physical_types = [''em.wl'', ''time''],
      axis_world_coords = (\<lambda>_. e),
      extra_coords = Some [(''exposure time'', e)],
      longitude_name = None, longitude_loc = None,
      latitude_name = None, latitude_loc = None,
      spectral_name = Some ''em.wl'', spectral_loc = Some ''wcs'',
      time_name = Some ''time'', time_loc = Some ''wcs'',
      exposure_time_name = Some ''exposure time'',
      exposure_time_loc = Some ''extra_coords''\<rparr>"

definition u_ct :: astropy_unit where
  "u_ct = \<lparr>unit_scale = 1, unit_powers = (\<lambda>_. 0)(''ct'' := 1)\<rparr>"

text \<open>A cube like the example, with no time axis and no latitude axis.\<close>

definition example_cube_no_time :: "rat cube" where
  "example_cube_no_time =
     \<lparr>data = \<lparr>shape = [2], flat = [1, 2]\<rparr>, uncertainty = None, unit = u_ct,
      world_axis_physical_types = [''em.wl''],
      axis_world_coords = (\<lambda>_. Scalar 0),
      extra_coords = None,
      longitude_name = None, longitude_loc = None,
      latitude_name = None, latitude_loc = None,
      spectral_name = Some ''em.wl'', spectral_loc = Some ''wcs'',
      time_name = None, time_loc = None,
      exposure_time_name = None, exposure_time_loc = None\<rparr>"

text \<open>
  A two-dimensional instance of the example; a four-dimensional cube over four physical
  types with the same side table; and a per-exposure exposure time of 2 s and 4 s.
\<close>

definition example_cube_2d :: "astropy_unit \<Rightarrow> rat coord_value \<Rightarrow> rat cube" where
  "example_cube_2d un e =
     example_cube \<lparr>shape = [2, 2], flat = [2, 4, 6, 8]\<rparr>
       (Some \<lparr>shape = [2, 2], flat = [1, 1, 2, 2]\<rparr>) un e"

definition example_cube_4d :: "astropy_unit \<Rightarrow> rat coord_value \<Rightarrow> rat cube" where
  "example_cube_4d un e =
     \<lparr>data = \<lparr>shape = [2, 1, 1, 2], flat = [2, 4, 6, 8]\<rparr>,
      uncertainty = Some \<lparr>shape = [2, 1, 1, 2], flat = [1, 1, 2, 2]\<rparr>, unit = un,
      world_axis_physical_types =
        [''time'', ''custom:pos.helioprojective.lat'', ''custom:pos.helioprojective.lon'',
         ''em.wl''],
      axis_world_coords = (\<lambda>_. e),
      extra_coords = Some [(''exposure time'', e)],
      longitude_name = Some ''custom:pos.helioprojective.lon'', longitude_loc = Some ''wcs'',
      latitude_name = Some ''custom:pos.helioprojective.lat'', latitude_loc = Some ''wcs'',
      spectral_name = Some ''em.wl'', spectral_loc = Some ''wcs'',
      time_name = Some ''time'', time_loc = Some ''wcs'',
      exposure_time_name = Some ''exposure time'',
      exposure_time_loc = Some ''extra_coords''\<rparr>"

definition example_exposure_times :: "rat coord_value" where
  "example_exposure_times = Array \<lparr>shape = [2], flat = [2, 4]\<rparr>"

section \<open>Properties of the axis-name resolution\<close>

lemma masked_arange_single:
  assumes "masked_arange (length xs) (isin xs sn) = [i]"
  shows "i < length xs \<and> xs ! i \<in> set sn"
proof -
  have "i \<in> set (masked_arange (length xs) (isin xs sn))" using assms by simp
  then show ?thesis by (auto simp: masked_arange_def isin_def)
qed

lemma find_name_in_array_Some:
  assumes "find_name_in_array sn xs = Inr (Some n)"
  shows "n \<in> set sn \<and> n \<in> set xs"
  using assms masked_arange_single[of xs sn]
  by (auto simp: find_name_in_array_def int_of_array_def Let_def
      split: if_splits list.splits sum.splits)

lemma find_name_in_array_None:
  "find_name_in_array sn xs = Inr None \<longleftrightarrow> (\<forall>n \<in> set xs. n \<notin> set sn)"
  by (auto simp: find_name_in_array_def int_of_array_def Let_def isin_def filter_empty_conv
      split: if_splits list.splits sum.splits)

lemma masked_arange_filter:
  "map ((!) xs) (masked_arange (length xs) (isin xs sn)) = filter (\<lambda>n. n \<in> set sn) xs"
proof -
  have "masked_arange (length xs) (isin xs sn)
          = filter ((\<lambda>n. n \<in> set sn) \<circ> (!) xs) [0..<length xs]"
    unfolding masked_arange_def isin_def by (rule filter_cong) auto
  then have "map ((!) xs) (masked_arange (length xs) (isin xs sn))
          = filter (\<lambda>n. n \<in> set sn) (map ((!) xs) [0..<length xs])"
    by (simp add: filter_map)
  then show ?thesis by (simp add: map_nth)
qed

lemma count_matches:
  "(filter id (isin xs sn) = []) = (filter (\<lambda>n. n \<in> set sn) xs = [])"
  by (simp add: isin_def filter_empty_conv)

lemma find_name_in_array_unique:
  assumes "filter (\<lambda>n. n \<in> set sn) xs = [n]"
  shows "find_name_in_array sn xs = Inr (Some n)"
proof -
  from assms masked_arange_filter[of xs sn]
  obtain i where i: "masked_arange (length xs) (isin xs sn) = [i]" "xs ! i = n"
    by (cases "masked_arange (length xs) (isin xs sn)") auto
  show ?thesis
    using i assms by (simp add: find_name_in_array_def Let_def count_matches int_of_array_def)
qed

lemma find_name_in_array_several:
  assumes "2 \<le> length (filter (\<lambda>n. n \<in> set sn) xs)"
  shows "find_name_in_array sn xs
           = Inl (TypeError ''only size-1 arrays can be converted to Python scalars'')"
proof -
  have "length (masked_arange (length xs) (isin xs sn)) = length (filter (\<lambda>n. n \<in> set sn) xs)"
    using masked_arange_filter[of xs sn] by (metis length_map)
  with assms obtain i j rest where "masked_arange (length xs) (isin xs sn) = i # j # rest"
    by (cases "masked_arange (length xs) (isin xs sn)"; cases "tl (masked_arange (length xs) (isin xs sn))") auto
  then show ?thesis
    using assms by (auto simp: find_name_in_array_def Let_def count_matches int_of_array_def)
qed

lemma find_name_in_array_truthy:
  assumes "find_name_in_array sn xs = Inr nm" and "[] \<notin> set sn"
  shows "truthy nm \<longleftrightarrow> nm \<noteq> None"
proof (cases nm)
  case None
  then show ?thesis by (simp add: truthy_def)
next
  case (Some n)
  with assms find_name_in_array_Some[of sn xs n] have "n \<noteq> []" by auto
  with Some show ?thesis by (simp add: truthy_def)
qed

lemma find_axis_name_cases:
  assumes "find_axis_name sn types ec = Inr (name, loc)"
  shows "(find_name_in_array sn types = Inr name \<and> truthy name \<and> loc = Some ''wcs'')
       \<or> (\<exists>items. ec = Some items \<and> items \<noteq> []
             \<and> find_name_in_array sn (map fst items) = Inr name
             \<and> (if truthy name then loc = Some ''extra_coords'' else loc = None))
       \<or> (find_name_in_array sn types = Inr name \<and> \<not> truthy name \<and> loc = None)"
  using assms
  by (auto simp: find_axis_name_def split: sum.splits if_splits option.splits)

lemma find_axis_name_wcs_unique:
  assumes "filter (\<lambda>n. n \<in> set sn) types = [n]" and "n \<noteq> []"
  shows "find_axis_name sn types ec = Inr (Some n, Some ''wcs'')"
  using find_name_in_array_unique[OF assms(1)] assms(2)
  by (simp add: find_axis_name_def truthy_def)

lemma find_axis_name_extra_coords_unique:
  assumes "\<forall>t \<in> set types. t \<notin> set sn"
    and "filter (\<lambda>n. n \<in> set sn) (map fst items) = [n]" and "n \<noteq> []"
  shows "find_axis_name sn types (Some items) = Inr (Some n, Some ''extra_coords'')"
proof -
  have "find_name_in_array sn types = Inr None"
    using assms(1) by (simp add: find_name_in_array_None)
  moreover have "items \<noteq> []" using assms(2) by auto
  ultimately show ?thesis
    using find_name_in_array_unique[OF assms(2)] assms(3)
    by (simp add: find_axis_name_def truthy_def)
qed

lemma find_axis_name_unresolved:
  assumes "\<forall>t \<in> set types. t \<notin> set sn"
    and "ec = None \<or> (\<exists>items. ec = Some items \<and> (\<forall>k \<in> set (map fst items). k \<notin> set sn))"
  shows "find_axis_name sn types ec = Inr (None, None)"
proof -
  have types: "find_name_in_array sn types = Inr None"
    using assms(1) by (simp add: find_name_in_array_None)
  from assms(2) show ?thesis
  proof
    assume "ec = None"
    with types show ?thesis by (simp add: find_axis_name_def truthy_def)
  next
    assume "\<exists>items. ec = Some items \<and> (\<forall>k \<in> set (map fst items). k \<notin> set sn)"
    then obtain items where items: "ec = Some items" "\<forall>k \<in> set (map fst items). k \<notin> set sn"
      by blast
    then have "find_name_in_array sn (map fst items) = Inr None"
      by (simp only: find_name_in_array_None)
    with types items(1) show ?thesis by (simp add: find_axis_name_def truthy_def)
  qed
qed

text \<open>
  C4: when two or more elements of the physical-type list are supported names, the
  resolution is claimed to return the one at the lowest axis index with source
  \<open>wcs\<close>, and to choose \<open>wcs\<close> whenever an element of the list matches, whatever the
  side table holds. The code converts the array of all matching indices to one integer,
  which fails as soon as there are two: for the time names and the physical types
  \<open>time, em.wl, time\<close> the resolution raises \<open>TypeError\<close> where the claim promises
  \<open>time\<close> from \<open>wcs\<close>.
\<close>

theorem find_axis_name_two_wcs_matches_raise:
  "find_axis_name SUPPORTED_TIME_NAMES [''time'', ''em.wl'', ''time'']
       (Some [(''exposure time'', Scalar (2::rat))])
     = Inl (TypeError ''only size-1 arrays can be converted to Python scalars'')"
  by code_simp

text \<open>
  C5: when no element of the physical-type list is a supported name but some key of the
  side table is, the resolution is claimed to return that key with source
  \<open>extra_coords\<close>; when nothing matches in either source, or the side table is empty
  or absent, it returns \<open>(None, None)\<close>. On the code the first half fails when two
  keys of the side table are supported names: with the keys \<open>exposure time\<close> and
  \<open>exp_time\<close> the resolution of the exposure names raises \<open>TypeError\<close>.
\<close>

theorem find_axis_name_two_extra_coords_matches_raise:
  "find_axis_name SUPPORTED_EXPOSURE_NAMES [''em.wl'', ''time'']
       (Some [(''exposure time'', Scalar (2::rat)), (''exp_time'', Scalar 2)])
     = Inl (TypeError ''only size-1 arrays can be converted to Python scalars'')"
  by code_simp

text \<open>
  C9: the returned location is claimed to be present exactly when the returned name is
  present, for every supported-name set. A supported name that is the empty string is
  returned as the name but fails the truth test that sets the location.
\<close>

theorem find_axis_name_empty_name_without_source:
  "find_axis_name [[]] [[]] (None :: (string \<times> rat coord_value) list option)
     = Inr (Some [], None)"
  by code_simp

text \<open>
  C9, as the code has it: whenever the resolution returns, the location is present
  exactly when the name is a non-empty string, and it is \<open>wcs\<close> or \<open>extra_coords\<close>
  when present; for a supported-name set without the empty string (as each of the five
  of the module), the location is present exactly when the name is.
\<close>

theorem find_axis_name_source_iff_name:
  assumes "find_axis_name sn types ec = Inr (name, loc)"
  shows "(loc \<noteq> None \<longleftrightarrow> truthy name)
       \<and> ([] \<notin> set sn \<longrightarrow> (loc \<noteq> None \<longleftrightarrow> name \<noteq> None))
       \<and> (loc = None \<or> loc = Some ''wcs'' \<or> loc = Some ''extra_coords'')"
proof -
  from find_axis_name_cases[OF assms]
  obtain xs where xs: "find_name_in_array sn xs = Inr name"
    and loc: "if truthy name then loc = Some ''wcs'' \<or> loc = Some ''extra_coords''
              else loc = None"
    by (auto split: if_splits)
  from loc have 1: "loc \<noteq> None \<longleftrightarrow> truthy name" by (auto split: if_splits)
  from loc have 3: "loc = None \<or> loc = Some ''wcs'' \<or> loc = Some ''extra_coords''"
    by (auto split: if_splits)
  from xs have 2: "[] \<notin> set sn \<longrightarrow> (loc \<noteq> None \<longleftrightarrow> name \<noteq> None)"
    using 1 find_name_in_array_truthy[of sn xs name] by blast
  from 1 2 3 show ?thesis by blast
qed

theorem find_axis_name_source_iff_name_witness:
  "find_axis_name SUPPORTED_EXPOSURE_NAMES [''em.wl'', ''time'']
       (Some [(''exposure time'', Scalar (2::rat))])
     = Inr (Some ''exposure time'', Some ''extra_coords'')
   \<and> [] \<notin> set SUPPORTED_EXPOSURE_NAMES
   \<and> (Some ''extra_coords'' \<noteq> (None :: string option)
        \<longleftrightarrow> Some ''exposure time'' \<noteq> (None :: string option))
   \<and> truthy (Some ''exposure time'')"
proof -
  have h: "find_axis_name SUPPORTED_EXPOSURE_NAMES [''em.wl'', ''time'']
             (Some [(''exposure time'', Scalar (2::rat))])
           = Inr (Some ''exposure time'', Some ''extra_coords'')"
    by code_simp
  have e: "[] \<notin> set SUPPORTED_EXPOSURE_NAMES" by code_simp
  from find_axis_name_source_iff_name[OF h] h e show ?thesis by simp
qed

section \<open>Properties of arrays and broadcasting\<close>

lemma all_indices_length:
  "idx \<in> set (all_indices s) \<Longrightarrow> length idx = length s"
  by (induction s arbitrary: idx) auto

lemma operand_index_id:
  "idx \<in> set (all_indices s) \<Longrightarrow> operand_index s idx = idx"
proof (induction s arbitrary: idx)
  case Nil
  then show ?case by (simp add: operand_index_def)
next
  case (Cons d ds)
  then obtain i idx' where idx: "idx = i # idx'" "i < d" "idx' \<in> set (all_indices ds)"
    by auto
  from Cons.IH[OF idx(3)] all_indices_length[OF idx(3)] idx(1,2)
  show ?case by (auto simp: operand_index_def)
qed

lemma ravel_Cons:
  "ravel (d # ds) (i # idx) = foldl (\<lambda>acc (d, i). acc * d + i) i (zip ds idx)"
  by (simp add: ravel_def)

lemma foldl_ravel_acc:
  "idx \<in> set (all_indices s) \<Longrightarrow>
     foldl (\<lambda>acc (d, i). acc * d + i) acc (zip s idx) = acc * prod_list s + ravel s idx"
proof (induction s arbitrary: acc idx)
  case Nil
  then show ?case by (simp add: ravel_def)
next
  case (Cons d ds)
  then obtain i idx' where idx: "idx = i # idx'" "i < d" "idx' \<in> set (all_indices ds)"
    by auto
  have "foldl (\<lambda>acc (d, i). acc * d + i) acc (zip (d # ds) idx)
          = (acc * d + i) * prod_list ds + ravel ds idx'"
    using Cons.IH[OF idx(3), of "acc * d + i"] idx(1) by simp
  moreover have "ravel (d # ds) idx = i * prod_list ds + ravel ds idx'"
    using Cons.IH[OF idx(3), of i] idx(1) by (simp add: ravel_Cons)
  ultimately show ?case by (simp add: algebra_simps)
qed

lemma ravel_step:
  "idx \<in> set (all_indices ds) \<Longrightarrow> ravel (d # ds) (i # idx) = i * prod_list ds + ravel ds idx"
  by (simp add: ravel_Cons foldl_ravel_acc)

lemma concat_blocks_upt:
  "concat (map (\<lambda>i. map (\<lambda>k. i * p + k) [0..<p]) [0..<d]) = [0..<d * p]"
proof (induction d)
  case 0
  then show ?case by simp
next
  case (Suc d)
  have "map (\<lambda>k. d * p + k) [0..<p] = [d * p..<d * p + p]"
    by (simp add: map_add_upt add.commute)
  moreover have "[0..<d * p] @ [d * p..<d * p + p] = [0..<d * p + p]"
    by (metis le_add1 upt_add_eq_append zero_le)
  ultimately show ?case using Suc by (simp add: add.commute)
qed

lemma ravel_all_indices:
  "map (ravel s) (all_indices s) = [0..<prod_list s]"
proof (induction s)
  case Nil
  then show ?case by (simp add: ravel_def)
next
  case (Cons d ds)
  have "map (ravel (d # ds)) (all_indices (d # ds))
          = concat (map (\<lambda>i. map (\<lambda>idx. i * prod_list ds + ravel ds idx) (all_indices ds)) [0..<d])"
    by (simp add: map_concat comp_def ravel_step cong: map_cong)
  also have "\<dots> = concat (map (\<lambda>i. map (\<lambda>k. i * prod_list ds + k) (map (ravel ds) (all_indices ds))) [0..<d])"
    by (simp add: comp_def)
  also have "\<dots> = [0..<d * prod_list ds]"
    by (simp only: Cons.IH concat_blocks_upt)
  finally show ?case by simp
qed

lemma all_indices_count: "length (all_indices s) = prod_list s"
  using ravel_all_indices[of s] by (metis length_map length_upt minus_nat.diff_0)

lemma item_all_indices:
  assumes "wf_array a"
  shows "map (item a) (all_indices (shape a)) = flat a"
proof -
  have "map (item a) (all_indices (shape a))
          = map (\<lambda>idx. flat a ! ravel (shape a) idx) (all_indices (shape a))"
    by (simp add: item_def operand_index_id cong: map_cong)
  also have "\<dots> = map ((!) (flat a)) (map (ravel (shape a)) (all_indices (shape a)))"
    by (simp add: comp_def)
  also have "\<dots> = map ((!) (flat a)) [0..<length (flat a)]"
    using assms by (simp add: ravel_all_indices wf_array_def)
  also have "\<dots> = flat a"
    by (rule map_nth)
  finally show ?thesis .
qed

lemma all_indices_nth_ravel:
  assumes "k < prod_list s"
  shows "ravel s (all_indices s ! k) = k"
proof -
  have "map (ravel s) (all_indices s) ! k = [0..<prod_list s] ! k"
    by (simp only: ravel_all_indices)
  then show ?thesis using assms by (simp add: all_indices_count)
qed

lemma elementwise_same_shape:
  assumes "broadcast_shapes (shape a) (shape b) = Some (shape a)" and "wf_array a"
  shows "elementwise f a b
           = Inr \<lparr>shape = shape a,
                  flat = map (\<lambda>(x, idx). f x (item b idx))
                           (zip (flat a) (all_indices (shape a)))\<rparr>"
proof -
  have "map (\<lambda>idx. f (item a idx) (item b idx)) (all_indices (shape a))
          = map (\<lambda>(x, idx). f x (item b idx))
              (zip (map (item a) (all_indices (shape a))) (all_indices (shape a)))"
    by (simp add: zip_map1 zip_same_conv_map comp_def)
  then show ?thesis
    using assms by (simp add: elementwise_def item_all_indices)
qed

lemma elementwise_wf:
  assumes "elementwise f a b = Inr r"
  shows "wf_array r"
  using assms
  by (auto simp: elementwise_def wf_array_def all_indices_count split: option.splits)

section \<open>Properties of the constructor and the correction\<close>

lemma resolve_lon: "find_axis_name SUPPORTED_LONGITUDE_NAMES [''em.wl'', ''time''] (Some [(''exposure time'', e)]) = Inr (None, None)"
  by code_simp
lemma resolve_lat: "find_axis_name SUPPORTED_LATITUDE_NAMES [''em.wl'', ''time''] (Some [(''exposure time'', e)]) = Inr (None, None)"
  by code_simp
lemma resolve_spec: "find_axis_name SUPPORTED_SPECTRAL_NAMES [''em.wl'', ''time''] (Some [(''exposure time'', e)]) = Inr (Some ''em.wl'', Some ''wcs'')"
  by code_simp
lemma resolve_time: "find_axis_name SUPPORTED_TIME_NAMES [''em.wl'', ''time''] (Some [(''exposure time'', e)]) = Inr (Some ''time'', Some ''wcs'')"
  by code_simp
lemma resolve_exp: "find_axis_name SUPPORTED_EXPOSURE_NAMES [''em.wl'', ''time''] (Some [(''exposure time'', e)]) = Inr (Some ''exposure time'', Some ''extra_coords'')"
  by code_simp

lemma example_cube_constructed:
  "length (shape d) = 2 \<Longrightarrow> constructed (example_cube d unc un e)"
  by (simp add: constructed_def example_cube_def SpectrogramCube_init_def and_then_def
      NDCube_init_def resolve_lon resolve_lat resolve_spec resolve_time resolve_exp)

lemma constructed_axes:
  assumes "constructed c"
  shows "length (shape (data c)) = length (world_axis_physical_types c)"
  using assms
  by (auto simp: constructed_def SpectrogramCube_init_def and_then_def NDCube_init_def
      split: if_splits)

lemma init_constructed_update:
  assumes "constructed c"
  shows "SpectrogramCube_init d (world_axis_physical_types c) (axis_world_coords c)
           (extra_coords c) u unc
         = (if length (shape d) = length (shape (data c))
            then Inr (c\<lparr>data := d, uncertainty := unc, unit := u\<rparr>)
            else Inl (ValueError ''data and coordinate system differ in their number of axes''))"
proof -
  note ax = constructed_axes[OF assms]
  from assms obtain r where r: "SpectrogramCube_init (data c) (world_axis_physical_types c)
      (axis_world_coords c) (extra_coords c) (unit c) (uncertainty c) = Inr r" and rc: "r = c"
    by (simp add: constructed_def)
  show ?thesis
  proof (cases "length (shape d) = length (shape (data c))")
    case True
    with r ax
    have "SpectrogramCube_init d (world_axis_physical_types c) (axis_world_coords c)
           (extra_coords c) u unc = Inr (r\<lparr>data := d, uncertainty := unc, unit := u\<rparr>)"
      by (auto simp: SpectrogramCube_init_def and_then_def NDCube_init_def
          split: sum.splits prod.splits)
    with rc True show ?thesis by simp
  next
    case False
    with ax show ?thesis
      by (simp add: SpectrogramCube_init_def and_then_def NDCube_init_def)
  qed
qed

lemma array_op_same_shape:
  assumes "broadcasts_to e (shape a)" and "wf_array a"
  shows "array_op f a e
           = Inr \<lparr>shape = shape a,
                  flat = map (\<lambda>(x, idx). f x (exposure_at e idx))
                           (zip (flat a) (all_indices (shape a)))\<rparr>"
proof (cases e)
  case (Scalar x)
  have "map (\<lambda>(v, idx). f v x) (zip (flat a) (all_indices (shape a)))
          = map (\<lambda>v. f v x) (map fst (zip (flat a) (all_indices (shape a))))"
    by (simp add: comp_def case_prod_unfold)
  also have "\<dots> = map (\<lambda>v. f v x) (flat a)"
    using assms(2) by (simp add: wf_array_def all_indices_count)
  finally show ?thesis
    using Scalar by (simp add: array_op_def exposure_at_def)
next
  case (Array b)
  with assms show ?thesis
    by (simp add: array_op_def exposure_at_def broadcasts_to_def elementwise_same_shape)
qed

lemma apply_unfold:
  assumes "constructed c" and "exposure_time array_str c = Inr (Some e)"
    and "reshape_exposure_time c e = Inr e'" and "uncertainty c = Some unc"
  shows "apply_exposure_time_correction array_str c undo force =
     (if undo then
        (if \<not> force \<and> s_in_bases (unit_mul (unit c) u_s)
         then Inl (ValueError UNDO_EXPOSURE_TIME_ERROR)
         else and_then (array_op (\<lambda>x e. x * e) (data c) e')
                (\<lambda>d'. and_then (array_op (\<lambda>x e. x * e) unc e')
                   (\<lambda>u'. if length (shape d') = length (shape (data c))
                         then Inr (c\<lparr>data := d', uncertainty := Some u',
                                     unit := unit_mul (unit c) u_s\<rparr>)
                         else Inl (ValueError
                           ''data and coordinate system differ in their number of axes''))))
      else
        (if \<not> force \<and> s_in_bases (unit c)
         then Inl (ValueError APPLY_EXPOSURE_TIME_ERROR)
         else and_then (array_op (\<lambda>x e. x / e) (data c) e')
                (\<lambda>d'. and_then (array_op (\<lambda>x e. x / e) unc e')
                   (\<lambda>u'. if length (shape d') = length (shape (data c))
                         then Inr (c\<lparr>data := d', uncertainty := Some u',
                                     unit := unit_div (unit c) u_s\<rparr>)
                         else Inl (ValueError
                           ''data and coordinate system differ in their number of axes'')))))"
  using assms(2,3,4) init_constructed_update[OF assms(1)]
  by (auto simp: apply_exposure_time_correction_def and_then_def
      calculate_exposure_time_correction_def uncalculate_exposure_time_correction_def
      split: sum.splits)

lemma example_cube_exposure_time:
  "exposure_time array_str (example_cube d unc un e) = Inr (Some e)"
  by (simp add: exposure_time_def example_cube_def truthy_def get_axis_coord_def)

lemma str_nat_1: "str_nat 1 = ''1''"
  by code_simp

lemma array_op_error:
  assumes "array_op f a e = Inl err"
  shows "err = ValueError ''operands could not be broadcast together''"
  using assms
  by (auto simp: array_op_def elementwise_def split: coord_value.splits option.splits)

lemma all_indices_at_ravel:
  assumes "idx \<in> set (all_indices s)"
  shows "ravel s idx < prod_list s \<and> all_indices s ! ravel s idx = idx"
proof -
  from assms obtain k where k: "k < length (all_indices s)" "all_indices s ! k = idx"
    by (auto simp: in_set_conv_nth)
  then have "k < prod_list s" by (simp add: all_indices_count)
  with k(2) all_indices_nth_ravel[of k s] show ?thesis by auto
qed

lemma array_op_items:
  assumes "array_op f a e = Inr r" and "wf_array a"
  shows "broadcast_result (shape a) e = Some (shape r)
       \<and> wf_array r
       \<and> (\<forall>idx \<in> set (all_indices (shape r)).
             item r idx = f (item a idx) (exposure_at e idx))"
proof (cases e)
  case (Scalar x)
  with assms(1) have r: "r = a\<lparr>flat := map (\<lambda>v. f v x) (flat a)\<rparr>"
    by (simp add: array_op_def)
  have "item r idx = f (item a idx) x" if "idx \<in> set (all_indices (shape r))" for idx
  proof -
    from that r have "idx \<in> set (all_indices (shape a))" by simp
    from all_indices_at_ravel[OF this] operand_index_id[OF this] assms(2)
    show ?thesis by (simp add: r item_def wf_array_def)
  qed
  with Scalar r assms(2) show ?thesis
    by (simp add: broadcast_result_def exposure_at_def wf_array_def)
next
  case (Array b)
  with assms(1) obtain s where s: "broadcast_shapes (shape a) (shape b) = Some s"
    and r: "r = \<lparr>shape = s, flat = map (\<lambda>idx. f (item a idx) (item b idx)) (all_indices s)\<rparr>"
    by (auto simp: array_op_def elementwise_def split: option.splits)
  have "item r idx = f (item a idx) (item b idx)" if "idx \<in> set (all_indices (shape r))" for idx
  proof -
    from that r have i: "idx \<in> set (all_indices s)" by simp
    from all_indices_at_ravel[OF i] operand_index_id[OF i]
    show ?thesis by (simp add: r item_def all_indices_count)
  qed
  with Array s r show ?thesis
    by (simp add: broadcast_result_def exposure_at_def wf_array_def all_indices_count)
qed

section \<open>The accessors\<close>

lemma example_cube_no_time_constructed: "constructed example_cube_no_time"
proof -
  have "find_axis_name SUPPORTED_LONGITUDE_NAMES [''em.wl'']
          (None :: (string \<times> rat coord_value) list option) = Inr (None, None)"
    by code_simp
  moreover have "find_axis_name SUPPORTED_LATITUDE_NAMES [''em.wl'']
          (None :: (string \<times> rat coord_value) list option) = Inr (None, None)"
    by code_simp
  moreover have "find_axis_name SUPPORTED_SPECTRAL_NAMES [''em.wl'']
          (None :: (string \<times> rat coord_value) list option) = Inr (Some ''em.wl'', Some ''wcs'')"
    by code_simp
  moreover have "find_axis_name SUPPORTED_TIME_NAMES [''em.wl'']
          (None :: (string \<times> rat coord_value) list option) = Inr (None, None)"
    by code_simp
  moreover have "find_axis_name SUPPORTED_EXPOSURE_NAMES [''em.wl'']
          (None :: (string \<times> rat coord_value) list option) = Inr (None, None)"
    by code_simp
  ultimately show ?thesis
    by (simp add: constructed_def example_cube_no_time_def SpectrogramCube_init_def
        and_then_def NDCube_init_def)
qed

lemma accessor_axis_not_found:
  "\<not> truthy (spectral_name c) \<Longrightarrow> spectral_axis array_str c
     = Inl (ValueError (''Spectral'' @ AXIS_NOT_FOUND_ERROR @ array_str SUPPORTED_SPECTRAL_NAMES))"
  "\<not> truthy (exposure_time_name c) \<Longrightarrow> exposure_time array_str c
     = Inl (ValueError (''Exposure time'' @ AXIS_NOT_FOUND_ERROR
                          @ array_str SUPPORTED_EXPOSURE_NAMES))"
  "\<not> truthy (longitude_name c) \<Longrightarrow> lon array_str c
     = Inl (ValueError (''Longitude'' @ AXIS_NOT_FOUND_ERROR
                          @ array_str SUPPORTED_LONGITUDE_NAMES))"
  by (simp_all add: spectral_axis_def exposure_time_def lon_def)

text \<open>
  C6: each of the five accessors whose cached axis name is absent is claimed to fail
  with a \<open>ValueError\<close> whose message names the quantity and lists the supported
  names. \<open>spectral_axis\<close>, \<open>exposure_time\<close> and \<open>lon\<close> do (lemma
  \<open>accessor_axis_not_found\<close>); \<open>time\<close> and \<open>lat\<close> name a constant that does not
  exist while building the message, so on a constructed cube without time and latitude
  axes they raise \<open>NameError\<close> instead.
\<close>

theorem time_and_lat_raise_NameError:
  "constructed example_cube_no_time
   \<and> time_name example_cube_no_time = None
   \<and> latitude_name example_cube_no_time = None
   \<and> time array_str example_cube_no_time = Inl (NameError ''SUPPORTED_TIMES_NAMES'')
   \<and> lat array_str example_cube_no_time = Inl (NameError ''SUPPORTED_LATITUDE_NAME'')"
  using example_cube_no_time_constructed
  by (simp add: time_def lat_def truthy_def example_cube_no_time_def)

section \<open>What the correction returns\<close>

lemma apply_returns_parts:
  assumes "constructed c" and "exposure_time array_str c = Inr (Some e)"
    and "reshape_exposure_time c e = Inr e'" and "uncertainty c = Some unc"
    and "apply_exposure_time_correction array_str c False force = Inr c'"
  shows "\<exists>d' u'. array_op (\<lambda>x e. x / e) (data c) e' = Inr d'
           \<and> array_op (\<lambda>x e. x / e) unc e' = Inr u'
           \<and> c' = c\<lparr>data := d', uncertainty := Some u', unit := unit_div (unit c) u_s\<rparr>"
  using apply_unfold[OF assms(1,2,3,4), of False force] assms(5)
  by (auto simp: and_then_def split: sum.splits if_splits)

lemma undo_returns_parts:
  assumes "constructed c" and "exposure_time array_str c = Inr (Some e)"
    and "reshape_exposure_time c e = Inr e'" and "uncertainty c = Some unc"
    and "apply_exposure_time_correction array_str c True force = Inr c'"
  shows "\<exists>d' u'. array_op (\<lambda>x e. x * e) (data c) e' = Inr d'
           \<and> array_op (\<lambda>x e. x * e) unc e' = Inr u'
           \<and> c' = c\<lparr>data := d', uncertainty := Some u', unit := unit_mul (unit c) u_s\<rparr>"
  using apply_unfold[OF assms(1,2,3,4), of True force] assms(5)
  by (auto simp: and_then_def split: sum.splits if_splits)

lemma apply_returns_shape_kept:
  assumes "constructed c" and "exposure_time array_str c = Inr (Some e)"
    and "reshape_exposure_time c e = Inr e'" and "uncertainty c = Some unc"
    and "wf_array (data c)" and "wf_array unc"
    and "broadcasts_to e' (shape (data c))" and "broadcasts_to e' (shape unc)"
    and "force \<or> \<not> s_in_bases (unit c)"
  shows "\<exists>c'. apply_exposure_time_correction array_str c False force = Inr c'"
  using apply_unfold[OF assms(1,2,3,4), of False force] assms(9)
    array_op_same_shape[OF assms(7,5), of "\<lambda>x e. x / e"]
    array_op_same_shape[OF assms(8,6), of "\<lambda>x e. x / e"]
  by (auto simp: and_then_def simp del: all_indices.simps)

lemma undo_returns_shape_kept:
  assumes "constructed c" and "exposure_time array_str c = Inr (Some e)"
    and "reshape_exposure_time c e = Inr e'" and "uncertainty c = Some unc"
    and "wf_array (data c)" and "wf_array unc"
    and "broadcasts_to e' (shape (data c))" and "broadcasts_to e' (shape unc)"
    and "force \<or> \<not> s_in_bases (unit_mul (unit c) u_s)"
  shows "\<exists>c'. apply_exposure_time_correction array_str c True force = Inr c'"
  using apply_unfold[OF assms(1,2,3,4), of True force] assms(9)
    array_op_same_shape[OF assms(7,5), of "\<lambda>x e. x * e"]
    array_op_same_shape[OF assms(8,6), of "\<lambda>x e. x * e"]
  by (auto simp: and_then_def simp del: all_indices.simps)

lemma apply_error_cases:
  assumes "constructed c" and "exposure_time array_str c = Inr (Some e)"
    and "reshape_exposure_time c e = Inr e'" and "uncertainty c = Some unc"
    and "apply_exposure_time_correction array_str c undo force = Inl err"
  shows "err = ValueError UNDO_EXPOSURE_TIME_ERROR
             \<and> undo \<and> \<not> force \<and> s_in_bases (unit_mul (unit c) u_s)
       \<or> err = ValueError APPLY_EXPOSURE_TIME_ERROR
             \<and> \<not> undo \<and> \<not> force \<and> s_in_bases (unit c)
       \<or> err = ValueError ''operands could not be broadcast together''
       \<or> err = ValueError ''data and coordinate system differ in their number of axes''"
  using apply_unfold[OF assms(1,2,3,4), of undo force] assms(5)
    array_op_error[of "\<lambda>x e. x / e" "data c" e'] array_op_error[of "\<lambda>x e. x / e" unc e']
    array_op_error[of "\<lambda>x e. x * e" "data c" e'] array_op_error[of "\<lambda>x e. x * e" unc e']
  by (auto simp: and_then_def split: sum.splits if_splits)

lemma error_messages_differ:
  "''operands could not be broadcast together'' \<noteq> APPLY_EXPOSURE_TIME_ERROR"
  "''operands could not be broadcast together'' \<noteq> UNDO_EXPOSURE_TIME_ERROR"
  "''data and coordinate system differ in their number of axes'' \<noteq> APPLY_EXPOSURE_TIME_ERROR"
  "''data and coordinate system differ in their number of axes'' \<noteq> UNDO_EXPOSURE_TIME_ERROR"
  "APPLY_EXPOSURE_TIME_ERROR \<noteq> UNDO_EXPOSURE_TIME_ERROR"
  by (simp_all add: APPLY_EXPOSURE_TIME_ERROR_def UNDO_EXPOSURE_TIME_ERROR_def)

section \<open>The example cubes\<close>

lemma example_units:
  "s_in_bases (unit_div u_ct u_s)" "\<not> s_in_bases u_ct" "s_in_bases (unit_mul u_ct u_s)"
  "\<not> s_in_bases (unit_mul (unit_div u_ct u_s) u_s)"
  by (simp_all add: s_in_bases_def unit_div_def unit_mul_def u_ct_def u_s_def)

lemma unit_div_mul_s: "unit_mul (unit_div un u_s) u_s = (un :: astropy_unit)"
  by (cases un) (simp add: unit_div_def unit_mul_def u_s_def fun_eq_iff)

lemma s_in_bases_div_mul:
  "s_in_bases (unit_mul (unit_div un u_s) u_s) = s_in_bases un"
  by (simp add: unit_div_mul_s)

lemma dimensions_message: "str_nat (length (shape (dimensions c))) = ''1''"
  using str_nat_1 by (simp add: dimensions_def)

lemma reshape_unsupported_dimensionality:
  assumes "length (shape (data c)) \<notin> {1, 2, 3}"
  shows "reshape_exposure_time c (Array a)
     = Inl (ValueError ''SpectrogramCube dimensions must be 2 or 3. Dimensions=1'')"
  using assms dimensions_message[of c]
  by (simp add: reshape_exposure_time_def) (simp add: dimensions_def)

lemma reshape_scalar: "reshape_exposure_time c (Scalar x) = Inr (Scalar x)"
  by (simp add: reshape_exposure_time_def)

lemma array_op_scalar:
  "array_op f a (Scalar x) = Inr (a\<lparr>flat := map (\<lambda>v. f v x) (flat a)\<rparr>)"
  by (simp add: array_op_def)

lemma example_cube_2d_facts:
  "constructed (example_cube_2d un e)"
  "exposure_time array_str (example_cube_2d un e) = Inr (Some e)"
  "uncertainty (example_cube_2d un e) = Some \<lparr>shape = [2, 2], flat = [1, 1, 2, 2]\<rparr>"
  "data (example_cube_2d un e) = \<lparr>shape = [2, 2], flat = [2, 4, 6, 8]\<rparr>"
  "unit (example_cube_2d un e) = un"
  "reshape_exposure_time (example_cube_2d un e) example_exposure_times
     = Inr (Array \<lparr>shape = [2, 1], flat = [2, 4]\<rparr>)"
  "reshape_exposure_time (example_cube_2d un e) (Scalar x) = Inr (Scalar x)"
  by (simp_all add: example_cube_2d_def example_cube_constructed example_cube_exposure_time
      reshape_exposure_time_def dimensions_def example_exposure_times_def newaxis1_def
      and_then_def, simp_all add: example_cube_def)

lemma example_cube_2d_wf:
  "wf_array (data (example_cube_2d un e))"
  "wf_array \<lparr>shape = [2, 2], flat = [1, 1, 2, 2 :: rat]\<rparr>"
  by (simp_all add: example_cube_2d_facts wf_array_def)

lemma example_broadcasts:
  "broadcasts_to (Array \<lparr>shape = [2, 1], flat = [2, 4 :: rat]\<rparr>) [2, 2]"
  "broadcast_result [2, 2] (Array \<lparr>shape = [2, 1], flat = [2, 4 :: rat]\<rparr>) = Some [2, 2]"
  by (simp_all add: broadcasts_to_def broadcast_result_def broadcast_shapes_def)

lemma example_cube_4d_constructed: "constructed (example_cube_4d un e)"
proof -
  let ?types = "[''time'', ''custom:pos.helioprojective.lat'',
                 ''custom:pos.helioprojective.lon'', ''em.wl'']"
  have "find_axis_name SUPPORTED_LONGITUDE_NAMES ?types (Some [(''exposure time'', e)])
          = Inr (Some ''custom:pos.helioprojective.lon'', Some ''wcs'')"
    by code_simp
  moreover have "find_axis_name SUPPORTED_LATITUDE_NAMES ?types (Some [(''exposure time'', e)])
          = Inr (Some ''custom:pos.helioprojective.lat'', Some ''wcs'')"
    by code_simp
  moreover have "find_axis_name SUPPORTED_SPECTRAL_NAMES ?types (Some [(''exposure time'', e)])
          = Inr (Some ''em.wl'', Some ''wcs'')"
    by code_simp
  moreover have "find_axis_name SUPPORTED_TIME_NAMES ?types (Some [(''exposure time'', e)])
          = Inr (Some ''time'', Some ''wcs'')"
    by code_simp
  moreover have "find_axis_name SUPPORTED_EXPOSURE_NAMES ?types (Some [(''exposure time'', e)])
          = Inr (Some ''exposure time'', Some ''extra_coords'')"
    by code_simp
  ultimately show ?thesis
    by (simp add: constructed_def example_cube_4d_def SpectrogramCube_init_def
        and_then_def NDCube_init_def)
qed

lemma example_cube_4d_facts:
  "constructed (example_cube_4d un e)"
  "exposure_time array_str (example_cube_4d un e) = Inr (Some e)"
  "uncertainty (example_cube_4d un e) = Some \<lparr>shape = [2, 1, 1, 2], flat = [1, 1, 2, 2]\<rparr>"
  "data (example_cube_4d un e) = \<lparr>shape = [2, 1, 1, 2], flat = [2, 4, 6, 8]\<rparr>"
  "unit (example_cube_4d un e) = un"
  by (simp_all add: example_cube_4d_constructed,
      simp_all add: example_cube_4d_def exposure_time_def truthy_def get_axis_coord_def)

lemma reshape_4d_array:
  "reshape_exposure_time (example_cube_4d un e) example_exposure_times
     = Inl (ValueError ''SpectrogramCube dimensions must be 2 or 3. Dimensions=1'')"
  unfolding example_exposure_times_def
  by (rule reshape_unsupported_dimensionality) (simp add: example_cube_4d_facts)

section \<open>The guard of the correction\<close>

text \<open>
  C1, as the code has it: for a constructed cube whose exposure-time accessor returns
  \<open>e\<close>, whose reshaping succeeds with \<open>e'\<close> (the exposure time is a scalar, or the
  data has one, two or three axes) and which carries an uncertainty array. Without
  \<open>force\<close> the correction raises the already-applied \<open>ValueError\<close> exactly when
  seconds is among the bases of the decomposed unit. When the guard passes or \<open>force\<close>
  is set, and the exposure time broadcasts to the shape of the data and of the
  uncertainty, the correction returns a cube. Whenever it returns a cube, the shape of
  the new data is the broadcast of the old shape and the exposure time, every element of
  the new data is the element of the old data at that index divided by the exposure
  time at that index, the same holds of the uncertainty, and the new unit is the old
  unit divided by seconds.
\<close>

theorem apply_exposure_time_correction_guard:
  assumes "constructed c" and "exposure_time array_str c = Inr (Some e)"
    and "reshape_exposure_time c e = Inr e'" and "uncertainty c = Some unc"
    and "wf_array (data c)" and "wf_array unc"
  shows "(apply_exposure_time_correction array_str c False False
            = Inl (ValueError APPLY_EXPOSURE_TIME_ERROR) \<longleftrightarrow> s_in_bases (unit c))
       \<and> ((force \<or> \<not> s_in_bases (unit c))
            \<and> broadcasts_to e' (shape (data c)) \<and> broadcasts_to e' (shape unc) \<longrightarrow>
            (\<exists>c'. apply_exposure_time_correction array_str c False force = Inr c'))
       \<and> (\<forall>c'. apply_exposure_time_correction array_str c False force = Inr c' \<longrightarrow>
             broadcast_result (shape (data c)) e' = Some (shape (data c'))
             \<and> (\<forall>idx \<in> set (all_indices (shape (data c'))).
                   item (data c') idx = item (data c) idx / exposure_at e' idx)
             \<and> (\<exists>u'. uncertainty c' = Some u'
                   \<and> broadcast_result (shape unc) e' = Some (shape u')
                   \<and> (\<forall>idx \<in> set (all_indices (shape u')).
                         item u' idx = item unc idx / exposure_at e' idx))
             \<and> unit c' = unit_div (unit c) u_s)"
proof -
  have 1: "apply_exposure_time_correction array_str c False False
             = Inl (ValueError APPLY_EXPOSURE_TIME_ERROR) \<longleftrightarrow> s_in_bases (unit c)"
  proof
    assume "apply_exposure_time_correction array_str c False False
              = Inl (ValueError APPLY_EXPOSURE_TIME_ERROR)"
    from apply_error_cases[OF assms(1,2,3,4) this] error_messages_differ
    show "s_in_bases (unit c)" by auto
  next
    assume "s_in_bases (unit c)"
    with apply_unfold[OF assms(1,2,3,4), of False False]
    show "apply_exposure_time_correction array_str c False False
            = Inl (ValueError APPLY_EXPOSURE_TIME_ERROR)"
      by simp
  qed
  have 2: "\<exists>c'. apply_exposure_time_correction array_str c False force = Inr c'"
    if "force \<or> \<not> s_in_bases (unit c)"
      "broadcasts_to e' (shape (data c))" "broadcasts_to e' (shape unc)"
    by (rule apply_returns_shape_kept[OF assms(1,2,3,4,5,6) that(2,3,1)])
  have 3: "broadcast_result (shape (data c)) e' = Some (shape (data c'))
             \<and> (\<forall>idx \<in> set (all_indices (shape (data c'))).
                   item (data c') idx = item (data c) idx / exposure_at e' idx)
             \<and> (\<exists>u'. uncertainty c' = Some u'
                   \<and> broadcast_result (shape unc) e' = Some (shape u')
                   \<and> (\<forall>idx \<in> set (all_indices (shape u')).
                         item u' idx = item unc idx / exposure_at e' idx))
             \<and> unit c' = unit_div (unit c) u_s"
    if "apply_exposure_time_correction array_str c False force = Inr c'" for c'
  proof -
    from apply_returns_parts[OF assms(1,2,3,4) that]
    obtain d' u' where d': "array_op (\<lambda>x e. x / e) (data c) e' = Inr d'"
      and u': "array_op (\<lambda>x e. x / e) unc e' = Inr u'"
      and c': "c' = c\<lparr>data := d', uncertainty := Some u', unit := unit_div (unit c) u_s\<rparr>"
      by blast
    from array_op_items[OF d' assms(5)] array_op_items[OF u' assms(6)] c'
    show ?thesis by simp
  qed
  from 1 2 3 show ?thesis by blast
qed

text \<open>
  The hypotheses of C1 hold of the two-dimensional example in counts with exposure
  times 2 s and 4 s: the correction returns, and the element in row 1 and column 0 of
  the new data is 6 divided by 4.
\<close>

theorem apply_exposure_time_correction_guard_witness:
  "constructed (example_cube_2d u_ct example_exposure_times)
   \<and> exposure_time concat (example_cube_2d u_ct example_exposure_times)
       = Inr (Some example_exposure_times)
   \<and> reshape_exposure_time (example_cube_2d u_ct example_exposure_times)
         example_exposure_times
       = Inr (Array \<lparr>shape = [2, 1], flat = [2, 4]\<rparr>)
   \<and> uncertainty (example_cube_2d u_ct example_exposure_times)
       = Some \<lparr>shape = [2, 2], flat = [1, 1, 2, 2]\<rparr>
   \<and> wf_array (data (example_cube_2d u_ct example_exposure_times))
   \<and> wf_array \<lparr>shape = [2, 2], flat = [1, 1, 2, 2 :: rat]\<rparr>
   \<and> \<not> s_in_bases (unit (example_cube_2d u_ct example_exposure_times))
   \<and> broadcasts_to (Array \<lparr>shape = [2, 1], flat = [2, 4 :: rat]\<rparr>)
         (shape (data (example_cube_2d u_ct example_exposure_times)))
   \<and> (\<exists>c'. apply_exposure_time_correction concat
               (example_cube_2d u_ct example_exposure_times) False False = Inr c'
           \<and> shape (data c') = [2, 2]
           \<and> item (data c') [1, 0] = 3 / 2
           \<and> unit c' = unit_div u_ct u_s)"
proof -
  let ?c = "example_cube_2d u_ct example_exposure_times"
  let ?e' = "Array \<lparr>shape = [2, 1], flat = [2, 4 :: rat]\<rparr>"
  let ?unc = "\<lparr>shape = [2, 2], flat = [1, 1, 2, 2 :: rat]\<rparr>"
  have c: "constructed ?c" by (rule example_cube_2d_facts)
  have e: "exposure_time concat ?c = Inr (Some example_exposure_times)"
    by (rule example_cube_2d_facts)
  have r: "reshape_exposure_time ?c example_exposure_times = Inr ?e'"
    by (rule example_cube_2d_facts)
  have u: "uncertainty ?c = Some ?unc" by (rule example_cube_2d_facts)
  have d: "data ?c = \<lparr>shape = [2, 2], flat = [2, 4, 6, 8]\<rparr>"
    by (rule example_cube_2d_facts)
  have wd: "wf_array (data ?c)" by (rule example_cube_2d_wf)
  have wu: "wf_array ?unc" by (rule example_cube_2d_wf)
  have s: "\<not> s_in_bases (unit ?c)"
    by (simp add: example_cube_2d_facts example_units)
  have bd: "broadcasts_to ?e' (shape (data ?c))"
    by (simp only: d ndarray.simps example_broadcasts)
  have bu: "broadcasts_to ?e' (shape ?unc)"
    by (simp only: ndarray.simps example_broadcasts)
  note th = apply_exposure_time_correction_guard[OF c e r u wd wu, where force = False]
  from th s bd bu obtain c' where
    c': "apply_exposure_time_correction concat ?c False False = Inr c'"
    by blast
  with th have res: "broadcast_result (shape (data ?c)) ?e' = Some (shape (data c'))"
    "\<forall>idx \<in> set (all_indices (shape (data c'))).
        item (data c') idx = item (data ?c) idx / exposure_at ?e' idx"
    "unit c' = unit_div (unit ?c) u_s"
    by blast+
  from res(1) have sh: "shape (data c') = [2, 2]"
    by (simp only: d ndarray.simps example_broadcasts option.inject)
  have "[1, 0] \<in> set (all_indices [2, 2])" by code_simp
  with res(2) sh have "item (data c') [1, 0] = item (data ?c) [1, 0] / exposure_at ?e' [1, 0]"
    by simp
  also have "\<dots> = 3 / 2"
    unfolding d by code_simp
  finally have it: "item (data c') [1, 0] = 3 / 2" .
  from res(3) have un: "unit c' = unit_div u_ct u_s"
    by (simp add: example_cube_2d_facts)
  from c e r u wd wu s bd c' sh it un show ?thesis by blast
qed

text \<open>
  C1 as stated, for every cube with a resolved exposure-time axis, fails on a
  four-dimensional cube with a per-exposure array whose unit is counts per second:
  seconds is a base of the unit, yet the error raised is the dimensionality error, which
  the method raises before it reaches the guard.
\<close>

theorem apply_on_4d_cube_raises_dimension_error_first:
  "constructed (example_cube_4d (unit_div u_ct u_s) example_exposure_times)
   \<and> exposure_time concat (example_cube_4d (unit_div u_ct u_s) example_exposure_times)
       = Inr (Some example_exposure_times)
   \<and> s_in_bases (unit (example_cube_4d (unit_div u_ct u_s) example_exposure_times))
   \<and> apply_exposure_time_correction concat
         (example_cube_4d (unit_div u_ct u_s) example_exposure_times) False False
       = Inl (ValueError ''SpectrogramCube dimensions must be 2 or 3. Dimensions=1'')
   \<and> apply_exposure_time_correction concat
         (example_cube_4d (unit_div u_ct u_s) example_exposure_times) False False
       \<noteq> Inl (ValueError APPLY_EXPOSURE_TIME_ERROR)"
proof -
  have c: "constructed (example_cube_4d (unit_div u_ct u_s) example_exposure_times)"
    by (rule example_cube_4d_facts)
  have e: "exposure_time concat (example_cube_4d (unit_div u_ct u_s) example_exposure_times)
       = Inr (Some example_exposure_times)"
    by (rule example_cube_4d_facts)
  have s: "s_in_bases (unit (example_cube_4d (unit_div u_ct u_s) example_exposure_times))"
    by (simp add: example_cube_4d_facts example_units)
  have a: "apply_exposure_time_correction concat
         (example_cube_4d (unit_div u_ct u_s) example_exposure_times) False False
       = Inl (ValueError ''SpectrogramCube dimensions must be 2 or 3. Dimensions=1'')"
    by (simp add: apply_exposure_time_correction_def e and_then_def reshape_4d_array)
  have n: "ValueError ''SpectrogramCube dimensions must be 2 or 3. Dimensions=1''
             \<noteq> ValueError APPLY_EXPOSURE_TIME_ERROR"
    by (simp add: APPLY_EXPOSURE_TIME_ERROR_def)
  from c e s a n show ?thesis by simp
qed

section \<open>The guard of the undoing\<close>

text \<open>
  C2, as the code has it: for a constructed cube whose exposure-time accessor returns
  \<open>e\<close>, whose reshaping succeeds with \<open>e'\<close> and which carries an uncertainty array.
  Without \<open>force\<close> the undoing raises the already-undone \<open>ValueError\<close> exactly when
  seconds is among the bases of the decomposed product of the unit and seconds. When
  that guard does not trip or \<open>force\<close> is set, and the exposure time broadcasts to the
  shape of the data and of the uncertainty, the undoing returns a cube. Whenever it
  returns a cube, the shape of the new data is the broadcast of the old shape and the
  exposure time, every element of the new data is the element of the old data at that
  index multiplied by the exposure time at that index, the same holds of the
  uncertainty, and the new unit is the old unit times seconds.
\<close>

theorem undo_exposure_time_correction_guard:
  assumes "constructed c" and "exposure_time array_str c = Inr (Some e)"
    and "reshape_exposure_time c e = Inr e'" and "uncertainty c = Some unc"
    and "wf_array (data c)" and "wf_array unc"
  shows "(apply_exposure_time_correction array_str c True False
            = Inl (ValueError UNDO_EXPOSURE_TIME_ERROR)
          \<longleftrightarrow> s_in_bases (unit_mul (unit c) u_s))
       \<and> ((force \<or> \<not> s_in_bases (unit_mul (unit c) u_s))
            \<and> broadcasts_to e' (shape (data c)) \<and> broadcasts_to e' (shape unc) \<longrightarrow>
            (\<exists>c'. apply_exposure_time_correction array_str c True force = Inr c'))
       \<and> (\<forall>c'. apply_exposure_time_correction array_str c True force = Inr c' \<longrightarrow>
             broadcast_result (shape (data c)) e' = Some (shape (data c'))
             \<and> (\<forall>idx \<in> set (all_indices (shape (data c'))).
                   item (data c') idx = item (data c) idx * exposure_at e' idx)
             \<and> (\<exists>u'. uncertainty c' = Some u'
                   \<and> broadcast_result (shape unc) e' = Some (shape u')
                   \<and> (\<forall>idx \<in> set (all_indices (shape u')).
                         item u' idx = item unc idx * exposure_at e' idx))
             \<and> unit c' = unit_mul (unit c) u_s)"
proof -
  have 1: "apply_exposure_time_correction array_str c True False
             = Inl (ValueError UNDO_EXPOSURE_TIME_ERROR)
           \<longleftrightarrow> s_in_bases (unit_mul (unit c) u_s)"
  proof
    assume "apply_exposure_time_correction array_str c True False
              = Inl (ValueError UNDO_EXPOSURE_TIME_ERROR)"
    from apply_error_cases[OF assms(1,2,3,4) this] error_messages_differ
    show "s_in_bases (unit_mul (unit c) u_s)" by auto
  next
    assume "s_in_bases (unit_mul (unit c) u_s)"
    with apply_unfold[OF assms(1,2,3,4), of True False]
    show "apply_exposure_time_correction array_str c True False
            = Inl (ValueError UNDO_EXPOSURE_TIME_ERROR)"
      by simp
  qed
  have 2: "\<exists>c'. apply_exposure_time_correction array_str c True force = Inr c'"
    if "force \<or> \<not> s_in_bases (unit_mul (unit c) u_s)"
      "broadcasts_to e' (shape (data c))" "broadcasts_to e' (shape unc)"
    by (rule undo_returns_shape_kept[OF assms(1,2,3,4,5,6) that(2,3,1)])
  have 3: "broadcast_result (shape (data c)) e' = Some (shape (data c'))
             \<and> (\<forall>idx \<in> set (all_indices (shape (data c'))).
                   item (data c') idx = item (data c) idx * exposure_at e' idx)
             \<and> (\<exists>u'. uncertainty c' = Some u'
                   \<and> broadcast_result (shape unc) e' = Some (shape u')
                   \<and> (\<forall>idx \<in> set (all_indices (shape u')).
                         item u' idx = item unc idx * exposure_at e' idx))
             \<and> unit c' = unit_mul (unit c) u_s"
    if "apply_exposure_time_correction array_str c True force = Inr c'" for c'
  proof -
    from undo_returns_parts[OF assms(1,2,3,4) that]
    obtain d' u' where d': "array_op (\<lambda>x e. x * e) (data c) e' = Inr d'"
      and u': "array_op (\<lambda>x e. x * e) unc e' = Inr u'"
      and c': "c' = c\<lparr>data := d', uncertainty := Some u', unit := unit_mul (unit c) u_s\<rparr>"
      by blast
    from array_op_items[OF d' assms(5)] array_op_items[OF u' assms(6)] c'
    show ?thesis by simp
  qed
  from 1 2 3 show ?thesis by blast
qed

text \<open>
  The hypotheses of C2 hold of the two-dimensional example in counts per second with
  exposure times 2 s and 4 s: the undoing returns, the element in row 1 and column 0 of
  the new data is 6 times 4, and the new unit is counts.
\<close>

theorem undo_exposure_time_correction_guard_witness:
  "constructed (example_cube_2d (unit_div u_ct u_s) example_exposure_times)
   \<and> exposure_time concat (example_cube_2d (unit_div u_ct u_s) example_exposure_times)
       = Inr (Some example_exposure_times)
   \<and> reshape_exposure_time (example_cube_2d (unit_div u_ct u_s) example_exposure_times)
         example_exposure_times
       = Inr (Array \<lparr>shape = [2, 1], flat = [2, 4]\<rparr>)
   \<and> uncertainty (example_cube_2d (unit_div u_ct u_s) example_exposure_times)
       = Some \<lparr>shape = [2, 2], flat = [1, 1, 2, 2]\<rparr>
   \<and> wf_array (data (example_cube_2d (unit_div u_ct u_s) example_exposure_times))
   \<and> wf_array \<lparr>shape = [2, 2], flat = [1, 1, 2, 2 :: rat]\<rparr>
   \<and> \<not> s_in_bases
         (unit_mul (unit (example_cube_2d (unit_div u_ct u_s) example_exposure_times)) u_s)
   \<and> broadcasts_to (Array \<lparr>shape = [2, 1], flat = [2, 4 :: rat]\<rparr>)
         (shape (data (example_cube_2d (unit_div u_ct u_s) example_exposure_times)))
   \<and> (\<exists>c'. apply_exposure_time_correction concat
               (example_cube_2d (unit_div u_ct u_s) example_exposure_times) True False
             = Inr c'
           \<and> shape (data c') = [2, 2]
           \<and> item (data c') [1, 0] = 24
           \<and> unit c' = u_ct)"
proof -
  let ?c = "example_cube_2d (unit_div u_ct u_s) example_exposure_times"
  let ?e' = "Array \<lparr>shape = [2, 1], flat = [2, 4 :: rat]\<rparr>"
  let ?unc = "\<lparr>shape = [2, 2], flat = [1, 1, 2, 2 :: rat]\<rparr>"
  have c: "constructed ?c" by (rule example_cube_2d_facts)
  have e: "exposure_time concat ?c = Inr (Some example_exposure_times)"
    by (rule example_cube_2d_facts)
  have r: "reshape_exposure_time ?c example_exposure_times = Inr ?e'"
    by (rule example_cube_2d_facts)
  have u: "uncertainty ?c = Some ?unc" by (rule example_cube_2d_facts)
  have d: "data ?c = \<lparr>shape = [2, 2], flat = [2, 4, 6, 8]\<rparr>"
    by (rule example_cube_2d_facts)
  have wd: "wf_array (data ?c)" by (rule example_cube_2d_wf)
  have wu: "wf_array ?unc" by (rule example_cube_2d_wf)
  have s: "\<not> s_in_bases (unit_mul (unit ?c) u_s)"
    by (simp add: example_cube_2d_facts example_units)
  have bd: "broadcasts_to ?e' (shape (data ?c))"
    by (simp only: d ndarray.simps example_broadcasts)
  have bu: "broadcasts_to ?e' (shape ?unc)"
    by (simp only: ndarray.simps example_broadcasts)
  note th = undo_exposure_time_correction_guard[OF c e r u wd wu, where force = False]
  from th s bd bu obtain c' where
    c': "apply_exposure_time_correction concat ?c True False = Inr c'"
    by blast
  with th have res: "broadcast_result (shape (data ?c)) ?e' = Some (shape (data c'))"
    "\<forall>idx \<in> set (all_indices (shape (data c'))).
        item (data c') idx = item (data ?c) idx * exposure_at ?e' idx"
    "unit c' = unit_mul (unit ?c) u_s"
    by blast+
  from res(1) have sh: "shape (data c') = [2, 2]"
    by (simp only: d ndarray.simps example_broadcasts option.inject)
  have "[1, 0] \<in> set (all_indices [2, 2])" by code_simp
  with res(2) sh have "item (data c') [1, 0] = item (data ?c) [1, 0] * exposure_at ?e' [1, 0]"
    by simp
  also have "\<dots> = 24"
    unfolding d by code_simp
  finally have it: "item (data c') [1, 0] = 24" .
  from res(3) have un: "unit c' = u_ct"
    by (simp add: example_cube_2d_facts unit_div_mul_s)
  from c e r u wd wu s bd c' sh it un show ?thesis by blast
qed

text \<open>
  C2 as stated, for every cube with a resolved exposure-time axis, fails on a
  four-dimensional cube in counts with a per-exposure array: the guard would trip, yet
  the error raised is the dimensionality error.
\<close>

theorem undo_on_4d_cube_raises_dimension_error_first:
  "constructed (example_cube_4d u_ct example_exposure_times)
   \<and> exposure_time concat (example_cube_4d u_ct example_exposure_times)
       = Inr (Some example_exposure_times)
   \<and> s_in_bases (unit_mul (unit (example_cube_4d u_ct example_exposure_times)) u_s)
   \<and> apply_exposure_time_correction concat
         (example_cube_4d u_ct example_exposure_times) True False
       = Inl (ValueError ''SpectrogramCube dimensions must be 2 or 3. Dimensions=1'')
   \<and> apply_exposure_time_correction concat
         (example_cube_4d u_ct example_exposure_times) True False
       \<noteq> Inl (ValueError UNDO_EXPOSURE_TIME_ERROR)"
proof -
  have c: "constructed (example_cube_4d u_ct example_exposure_times)"
    by (rule example_cube_4d_facts)
  have e: "exposure_time concat (example_cube_4d u_ct example_exposure_times)
       = Inr (Some example_exposure_times)"
    by (rule example_cube_4d_facts)
  have s: "s_in_bases (unit_mul (unit (example_cube_4d u_ct example_exposure_times)) u_s)"
    by (simp add: example_cube_4d_facts example_units)
  have a: "apply_exposure_time_correction concat
         (example_cube_4d u_ct example_exposure_times) True False
       = Inl (ValueError ''SpectrogramCube dimensions must be 2 or 3. Dimensions=1'')"
    by (simp add: apply_exposure_time_correction_def e and_then_def reshape_4d_array)
  have n: "ValueError ''SpectrogramCube dimensions must be 2 or 3. Dimensions=1''
             \<noteq> ValueError UNDO_EXPOSURE_TIME_ERROR"
    by (simp add: UNDO_EXPOSURE_TIME_ERROR_def)
  from c e s a n show ?thesis by simp
qed

section \<open>The dimensionality check\<close>

text \<open>
  C8, as the code has it: when the exposure time is an array and the data has a number
  of axes other than one, two or three (four, say), applying or undoing the correction
  raises the \<open>ValueError\<close> of the dimensionality check, whose message always ends in
  \<open>Dimensions=1\<close>.
\<close>

theorem apply_rejects_unsupported_dimensionality:
  assumes "exposure_time array_str c = Inr (Some (Array a))"
    and "length (shape (data c)) \<notin> {1, 2, 3}"
  shows "apply_exposure_time_correction array_str c undo force
           = Inl (ValueError ''SpectrogramCube dimensions must be 2 or 3. Dimensions=1'')"
  by (simp add: apply_exposure_time_correction_def assms(1) and_then_def
      reshape_unsupported_dimensionality[OF assms(2)])

text \<open>
  The hypotheses of C8 hold of the four-dimensional example with its per-exposure
  array.
\<close>

theorem apply_rejects_unsupported_dimensionality_witness:
  "exposure_time concat (example_cube_4d u_ct (Array \<lparr>shape = [2], flat = [2, 4]\<rparr>))
     = Inr (Some (Array \<lparr>shape = [2], flat = [2, 4]\<rparr>))
   \<and> length (shape (data (example_cube_4d u_ct (Array \<lparr>shape = [2], flat = [2, 4]\<rparr>))))
        \<notin> {1, 2, 3}
   \<and> apply_exposure_time_correction concat
         (example_cube_4d u_ct (Array \<lparr>shape = [2], flat = [2, 4]\<rparr>)) False True
       = Inl (ValueError ''SpectrogramCube dimensions must be 2 or 3. Dimensions=1'')"
proof -
  let ?c = "example_cube_4d u_ct (Array \<lparr>shape = [2], flat = [2, 4]\<rparr>)"
  have e: "exposure_time concat ?c = Inr (Some (Array \<lparr>shape = [2], flat = [2, 4]\<rparr>))"
    by (rule example_cube_4d_facts)
  have n: "length (shape (data ?c)) \<notin> {1, 2, 3}"
    by (simp add: example_cube_4d_facts)
  from apply_rejects_unsupported_dimensionality[OF e n, of False True] e n
  show ?thesis by simp
qed

text \<open>
  C8 as stated, for every four-dimensional cube with a resolved exposure-time axis,
  fails when the exposure time is a scalar: the correction is performed.
\<close>

theorem apply_on_4d_cube_with_scalar_exposure_time_returns:
  "constructed (example_cube_4d u_ct (Scalar 2))
   \<and> length (shape (data (example_cube_4d u_ct (Scalar 2)))) = 4
   \<and> exposure_time concat (example_cube_4d u_ct (Scalar 2)) = Inr (Some (Scalar 2))
   \<and> apply_exposure_time_correction concat (example_cube_4d u_ct (Scalar 2)) False False
       = Inr ((example_cube_4d (unit_div u_ct u_s) (Scalar 2))
                \<lparr>data := \<lparr>shape = [2, 1, 1, 2], flat = [1, 2, 3, 4]\<rparr>,
                 uncertainty := Some \<lparr>shape = [2, 1, 1, 2], flat = [1 / 2, 1 / 2, 1, 1]\<rparr>\<rparr>)"
proof -
  let ?c = "example_cube_4d u_ct (Scalar 2)"
  have c: "constructed ?c" by (rule example_cube_4d_facts)
  have e: "exposure_time concat ?c = Inr (Some (Scalar 2))" by (rule example_cube_4d_facts)
  have u: "uncertainty ?c = Some \<lparr>shape = [2, 1, 1, 2], flat = [1, 1, 2, 2]\<rparr>"
    by (rule example_cube_4d_facts)
  have n: "length (shape (data ?c)) = 4" by (simp add: example_cube_4d_facts)
  have "apply_exposure_time_correction concat ?c False False
       = Inr ((example_cube_4d (unit_div u_ct u_s) (Scalar 2))
                \<lparr>data := \<lparr>shape = [2, 1, 1, 2], flat = [1, 2, 3, 4]\<rparr>,
                 uncertainty := Some \<lparr>shape = [2, 1, 1, 2], flat = [1 / 2, 1 / 2, 1, 1]\<rparr>\<rparr>)"
    using apply_unfold[OF c e reshape_scalar u, of False False]
    by (simp add: example_cube_4d_facts example_units array_op_scalar and_then_def)
       (simp add: example_cube_4d_def)
  with c e n show ?thesis by simp
qed

text \<open>
  C10: for a constructed cube whose exposure time is a scalar, whatever the number of
  axes of its data (four, say), the correction never raises the dimensionality error;
  with an uncertainty array, and the guard passing or \<open>force\<close> set, it returns the cube
  with every element of the data and of the uncertainty divided (multiplied, when
  undoing) by the exposure time, and the unit divided (multiplied) by seconds.
\<close>

theorem apply_scalar_exposure_time_any_dimensionality:
  assumes "constructed c" and "exposure_time array_str c = Inr (Some (Scalar x))"
  shows "(\<forall>m. apply_exposure_time_correction array_str c undo force
               \<noteq> Inl (ValueError (''SpectrogramCube dimensions must be 2 or 3. Dimensions='' @ m)))
       \<and> (\<forall>unc. uncertainty c = Some unc \<and> (force \<or> \<not> s_in_bases (unit c)) \<longrightarrow>
            apply_exposure_time_correction array_str c False force
              = Inr (c\<lparr>data := (data c)\<lparr>flat := map (\<lambda>v. v / x) (flat (data c))\<rparr>,
                       uncertainty := Some (unc\<lparr>flat := map (\<lambda>v. v / x) (flat unc)\<rparr>),
                       unit := unit_div (unit c) u_s\<rparr>))
       \<and> (\<forall>unc. uncertainty c = Some unc
                \<and> (force \<or> \<not> s_in_bases (unit_mul (unit c) u_s)) \<longrightarrow>
            apply_exposure_time_correction array_str c True force
              = Inr (c\<lparr>data := (data c)\<lparr>flat := map (\<lambda>v. v * x) (flat (data c))\<rparr>,
                       uncertainty := Some (unc\<lparr>flat := map (\<lambda>v. v * x) (flat unc)\<rparr>),
                       unit := unit_mul (unit c) u_s\<rparr>))"
proof -
  have msgs: "APPLY_EXPOSURE_TIME_ERROR
                \<noteq> ''SpectrogramCube dimensions must be 2 or 3. Dimensions='' @ m"
    "UNDO_EXPOSURE_TIME_ERROR
                \<noteq> ''SpectrogramCube dimensions must be 2 or 3. Dimensions='' @ m" for m
    by (simp_all add: APPLY_EXPOSURE_TIME_ERROR_def UNDO_EXPOSURE_TIME_ERROR_def)
  have 1: "apply_exposure_time_correction array_str c undo force
             \<noteq> Inl (ValueError (''SpectrogramCube dimensions must be 2 or 3. Dimensions='' @ m))"
    for m
  proof (cases "uncertainty c")
    case None
    then show ?thesis
      by (simp add: apply_exposure_time_correction_def assms(2) and_then_def reshape_scalar)
  next
    case (Some unc)
    from apply_unfold[OF assms reshape_scalar Some, of undo force] msgs[of m]
    show ?thesis by (simp add: array_op_scalar and_then_def)
  qed
  have 2: "apply_exposure_time_correction array_str c False force
              = Inr (c\<lparr>data := (data c)\<lparr>flat := map (\<lambda>v. v / x) (flat (data c))\<rparr>,
                       uncertainty := Some (unc\<lparr>flat := map (\<lambda>v. v / x) (flat unc)\<rparr>),
                       unit := unit_div (unit c) u_s\<rparr>)"
    if "uncertainty c = Some unc" "force \<or> \<not> s_in_bases (unit c)" for unc
    using apply_unfold[OF assms reshape_scalar that(1), of False force] that(2)
    by (auto simp: array_op_scalar and_then_def)
  have 3: "apply_exposure_time_correction array_str c True force
              = Inr (c\<lparr>data := (data c)\<lparr>flat := map (\<lambda>v. v * x) (flat (data c))\<rparr>,
                       uncertainty := Some (unc\<lparr>flat := map (\<lambda>v. v * x) (flat unc)\<rparr>),
                       unit := unit_mul (unit c) u_s\<rparr>)"
    if "uncertainty c = Some unc" "force \<or> \<not> s_in_bases (unit_mul (unit c) u_s)" for unc
    using apply_unfold[OF assms reshape_scalar that(1), of True force] that(2)
    by (auto simp: array_op_scalar and_then_def)
  from 1 2 3 show ?thesis by blast
qed

text \<open>
  The hypotheses of C10 hold of the four-dimensional example with an exposure time of
  4 s.
\<close>

theorem apply_scalar_exposure_time_any_dimensionality_witness:
  "constructed (example_cube_4d u_ct (Scalar 4))
   \<and> exposure_time concat (example_cube_4d u_ct (Scalar 4)) = Inr (Some (Scalar 4))
   \<and> uncertainty (example_cube_4d u_ct (Scalar 4))
       = Some \<lparr>shape = [2, 1, 1, 2], flat = [1, 1, 2, 2]\<rparr>
   \<and> apply_exposure_time_correction concat (example_cube_4d u_ct (Scalar 4)) False True
       = Inr ((example_cube_4d (unit_div u_ct u_s) (Scalar 4))
                \<lparr>data := \<lparr>shape = [2, 1, 1, 2], flat = [1 / 2, 1, 3 / 2, 2]\<rparr>,
                 uncertainty := Some \<lparr>shape = [2, 1, 1, 2], flat = [1 / 4, 1 / 4, 1 / 2, 1 / 2]\<rparr>\<rparr>)"
proof -
  let ?c = "example_cube_4d u_ct (Scalar 4)"
  have c: "constructed ?c" by (rule example_cube_4d_facts)
  have e: "exposure_time concat ?c = Inr (Some (Scalar 4))" by (rule example_cube_4d_facts)
  have u: "uncertainty ?c = Some \<lparr>shape = [2, 1, 1, 2], flat = [1, 1, 2, 2]\<rparr>"
    by (rule example_cube_4d_facts)
  from apply_scalar_exposure_time_any_dimensionality[OF c e, where force = True] u
  have "apply_exposure_time_correction concat ?c False True
          = Inr (?c\<lparr>data := (data ?c)\<lparr>flat := map (\<lambda>v. v / 4) (flat (data ?c))\<rparr>,
                   uncertainty := Some (\<lparr>shape = [2, 1, 1, 2], flat = [1, 1, 2, 2]\<rparr>
                                          \<lparr>flat := map (\<lambda>v. v / 4) [1, 1, 2, 2]\<rparr>),
                   unit := unit_div (unit ?c) u_s\<rparr>)"
    by simp
  then have "apply_exposure_time_correction concat ?c False True
       = Inr ((example_cube_4d (unit_div u_ct u_s) (Scalar 4))
                \<lparr>data := \<lparr>shape = [2, 1, 1, 2], flat = [1 / 2, 1, 3 / 2, 2]\<rparr>,
                 uncertainty := Some \<lparr>shape = [2, 1, 1, 2], flat = [1 / 4, 1 / 4, 1 / 2, 1 / 2]\<rparr>\<rparr>)"
    by (simp add: example_cube_4d_def)
  with c e u show ?thesis by simp
qed

section \<open>Rows of a corrected two-dimensional cube\<close>

lemma concat_uniform_row:
  assumes "\<forall>x \<in> set xs. length (g x) = m" and "i < length xs"
  shows "take m (drop (i * m) (concat (map g xs))) = g (xs ! i)"
  using assms
proof (induction xs arbitrary: i)
  case Nil
  then show ?case by simp
next
  case (Cons x xs)
  show ?case
  proof (cases i)
    case 0
    with Cons.prems show ?thesis by simp
  next
    case (Suc k)
    with Cons.prems have "k < length xs" by simp
    moreover have "drop (Suc k * m) (g x @ concat (map g xs)) = drop (k * m) (concat (map g xs))"
      using Cons.prems(1) by simp
    ultimately show ?thesis using Cons.IH[of k] Cons.prems(1) Suc by simp
  qed
qed

lemma all_indices_1d: "all_indices [m] = map (\<lambda>j. [j]) [0..<m]"
  by (induction m) simp_all

lemma row_all_indices_2d:
  assumes "i < n"
  shows "row m i (all_indices [n, m]) = map (\<lambda>j. [i, j]) [0..<m]"
proof -
  have "all_indices [n, m] = concat (map (\<lambda>i. map (\<lambda>j. [i, j]) [0..<m]) [0..<n])"
    by (simp only: all_indices.simps(2)[of n "[m]"] all_indices_1d map_map comp_def)
  then show ?thesis
    using assms concat_uniform_row[of "[0..<n]" "\<lambda>i. map (\<lambda>j. [i, j]) [0..<m]" m i]
    by (simp add: row_def)
qed

lemma item_column_vector:
  assumes "shape b = [n, 1]" and "i < n"
  shows "item b [i, j] = flat b ! i"
  using assms by (auto simp: item_def operand_index_def ravel_def)

lemma row_length:
  assumes "length xs = n * m" and "i < n"
  shows "length (row m i xs) = m"
proof -
  from assms(2) have "Suc i \<le> n" by simp
  then have "Suc i * m \<le> n * m" by (rule mult_le_mono1)
  with assms(1) show ?thesis by (simp add: row_def)
qed

lemma row_map_zip:
  "row m i (map g (zip xs ys)) = map g (zip (row m i xs) (row m i ys))"
  by (simp add: row_def take_map drop_map take_zip drop_zip)

lemma array_op_rows:
  assumes "shape d = [n, m]" and "wf_array d" and "shape b = [n, 1]"
  shows "\<exists>r. array_op f d (Array b) = Inr r \<and> shape r = [n, m]
           \<and> (\<forall>i<n. row m i (flat r) = map (\<lambda>x. f x (flat b ! i)) (row m i (flat d)))"
proof -
  have bc: "broadcasts_to (Array b) (shape d)"
    using assms(1,3) by (simp add: broadcasts_to_def broadcast_shapes_def)
  let ?r = "\<lparr>shape = shape d,
             flat = map (\<lambda>(x, idx). f x (exposure_at (Array b) idx))
                      (zip (flat d) (all_indices (shape d)))\<rparr>"
  have r: "array_op f d (Array b) = Inr ?r"
    by (rule array_op_same_shape[OF bc assms(2)])
  have rows: "row m i (flat ?r) = map (\<lambda>x. f x (flat b ! i)) (row m i (flat d))" if "i < n" for i
  proof -
    have len: "length (row m i (flat d)) = m"
      using assms(1,2) that by (intro row_length[of _ n]) (simp_all add: wf_array_def)
    have idx: "row m i (all_indices (shape d)) = map (\<lambda>j. [i, j]) [0..<m]"
      by (simp only: assms(1) row_all_indices_2d[OF that])
    have "row m i (flat ?r)
            = map (\<lambda>(x, idx). f x (exposure_at (Array b) idx))
                (zip (row m i (flat d)) (row m i (all_indices (shape d))))"
      by (simp add: row_map_zip del: all_indices.simps)
    also have "\<dots> = map (\<lambda>(x, idx). f x (item b idx))
                (zip (row m i (flat d)) (map (\<lambda>j. [i, j]) [0..<m]))"
      by (simp only: idx exposure_at_def coord_value.case)
    also have "\<dots> = map (\<lambda>(x, j). f x (flat b ! i)) (zip (row m i (flat d)) [0..<m])"
      using that assms(3) by (simp add: zip_map2 item_column_vector case_prod_unfold)
    also have "\<dots> = map (\<lambda>x. f x (flat b ! i)) (map fst (zip (row m i (flat d)) [0..<m]))"
      by (simp add: case_prod_unfold comp_def)
    also have "\<dots> = map (\<lambda>x. f x (flat b ! i)) (row m i (flat d))"
      using len by simp
    finally show ?thesis .
  qed
  from r rows assms(1) show ?thesis by auto
qed


lemma reshape_2d:
  assumes "shape (data c) = [n, m]" and "shape a = [k]"
  shows "reshape_exposure_time c (Array a) = Inr (Array (a\<lparr>shape := [k, 1]\<rparr>))"
  using assms
  by (simp add: reshape_exposure_time_def dimensions_def newaxis1_def and_then_def)

lemma reshape_1d_3d:
  assumes "shape a = [k]"
  shows "length (shape (data c)) = 1 \<Longrightarrow> reshape_exposure_time c (Array a) = Inr (Array a)"
    and "length (shape (data c)) = 3 \<Longrightarrow>
           reshape_exposure_time c (Array a) = Inr (Array (a\<lparr>shape := [k, 1, 1]\<rparr>))"
  using assms
  by (simp_all add: reshape_exposure_time_def dimensions_def newaxis2_def and_then_def)

lemma apply_returns_data:
  assumes "constructed c" and "exposure_time array_str c = Inr (Some e)"
    and "reshape_exposure_time c e = Inr e'"
    and "apply_exposure_time_correction array_str c False force = Inr c'"
  shows "array_op (\<lambda>x e. x / e) (data c) e' = Inr (data c')"
proof (cases "uncertainty c")
  case None
  with assms(2,3,4) show ?thesis
    by (simp add: apply_exposure_time_correction_def and_then_def)
next
  case (Some unc)
  from apply_returns_parts[OF assms(1,2,3) Some assms(4)]
  show ?thesis by auto
qed

text \<open>
  C7: for a constructed two-dimensional cube of shape \<open>(N, M)\<close> whose exposure time is
  an array of shape \<open>(N)\<close> and whose unit passes the guard, the exposure time is reshaped
  to \<open>(N, 1)\<close>; the data of the cube the correction returns has shape \<open>(N, M)\<close> and its
  row \<open>i\<close> is row \<open>i\<close> of the original divided element-wise by the exposure time of index
  \<open>i\<close>; and the correction does return when the cube carries an uncertainty of the same
  shape. For one-dimensional data the exposure array is used as it is, for
  three-dimensional data it is reshaped to \<open>(N, 1, 1)\<close>.
\<close>

theorem apply_divides_rows_by_exposure_time:
  assumes "constructed c" and "shape (data c) = [N, M]" and "wf_array (data c)"
    and "exposure_time array_str c = Inr (Some (Array a))" and "shape a = [N]"
    and "\<not> s_in_bases (unit c)"
  shows "reshape_exposure_time c (Array a) = Inr (Array (a\<lparr>shape := [N, 1]\<rparr>))
       \<and> (\<forall>c'. apply_exposure_time_correction array_str c False False = Inr c' \<longrightarrow>
             shape (data c') = [N, M]
             \<and> (\<forall>i<N. row M i (flat (data c'))
                         = map (\<lambda>x. x / flat a ! i) (row M i (flat (data c)))))
       \<and> (\<forall>unc. uncertainty c = Some unc \<and> shape unc = [N, M] \<longrightarrow>
             (\<exists>c'. apply_exposure_time_correction array_str c False False = Inr c'))
       \<and> (\<forall>c1. length (shape (data c1)) = 1 \<longrightarrow>
             reshape_exposure_time c1 (Array a) = Inr (Array a))
       \<and> (\<forall>c3. length (shape (data c3)) = 3 \<longrightarrow>
             reshape_exposure_time c3 (Array a) = Inr (Array (a\<lparr>shape := [N, 1, 1]\<rparr>)))"
proof -
  let ?e' = "Array (a\<lparr>shape := [N, 1]\<rparr>)"
  have r: "reshape_exposure_time c (Array a) = Inr ?e'"
    by (rule reshape_2d[OF assms(2,5)])
  from array_op_rows[OF assms(2,3), of "a\<lparr>shape := [N, 1]\<rparr>" "\<lambda>x e. x / e"]
  obtain d' where d': "array_op (\<lambda>x e. x / e) (data c) ?e' = Inr d'" "shape d' = [N, M]"
    "\<forall>i<N. row M i (flat d') = map (\<lambda>x. x / flat a ! i) (row M i (flat (data c)))"
    by auto
  have 2: "shape (data c') = [N, M]
             \<and> (\<forall>i<N. row M i (flat (data c'))
                         = map (\<lambda>x. x / flat a ! i) (row M i (flat (data c))))"
    if "apply_exposure_time_correction array_str c False False = Inr c'" for c'
    using apply_returns_data[OF assms(1,4) r that] d' by simp
  have 3: "\<exists>c'. apply_exposure_time_correction array_str c False False = Inr c'"
    if "uncertainty c = Some unc" "shape unc = [N, M]" for unc
  proof -
    have "\<exists>u'. array_op (\<lambda>x e. x / e) unc ?e' = Inr u'"
      using that(2) by (simp add: array_op_def elementwise_def broadcast_shapes_def)
    then show ?thesis
      using apply_unfold[OF assms(1,4) r that(1), of False False] assms(6,2) d'(1,2)
      by (auto simp: and_then_def)
  qed
  from r 2 3 reshape_1d_3d[OF assms(5)] show ?thesis by blast
qed

text \<open>
  The hypotheses of C7 hold of the two-dimensional example with rows \<open>2, 4\<close> and
  \<open>6, 8\<close> and exposure times 2 s and 4 s: the returned rows are \<open>1, 2\<close> and \<open>3/2, 2\<close>.
\<close>

theorem apply_divides_rows_by_exposure_time_witness:
  "constructed (example_cube_2d u_ct (Array \<lparr>shape = [2], flat = [2, 4]\<rparr>))
   \<and> shape (data (example_cube_2d u_ct (Array \<lparr>shape = [2], flat = [2, 4]\<rparr>))) = [2, 2]
   \<and> wf_array (data (example_cube_2d u_ct (Array \<lparr>shape = [2], flat = [2, 4]\<rparr>)))
   \<and> exposure_time concat (example_cube_2d u_ct (Array \<lparr>shape = [2], flat = [2, 4]\<rparr>))
       = Inr (Some (Array \<lparr>shape = [2], flat = [2, 4]\<rparr>))
   \<and> \<not> s_in_bases (unit (example_cube_2d u_ct (Array \<lparr>shape = [2], flat = [2, 4]\<rparr>)))
   \<and> (\<exists>c'. apply_exposure_time_correction concat
               (example_cube_2d u_ct (Array \<lparr>shape = [2], flat = [2, 4]\<rparr>)) False False
             = Inr c'
           \<and> shape (data c') = [2, 2]
           \<and> row 2 0 (flat (data c')) = [1, 2]
           \<and> row 2 1 (flat (data c')) = [3 / 2, 2])"
proof -
  let ?a = "\<lparr>shape = [2], flat = [2, 4 :: rat]\<rparr>"
  let ?c = "example_cube_2d u_ct (Array ?a)"
  have c: "constructed ?c" by (rule example_cube_2d_facts)
  have sh: "shape (data ?c) = [2, 2]" by (simp add: example_cube_2d_facts)
  have wf: "wf_array (data ?c)" by (rule example_cube_2d_wf)
  have e: "exposure_time concat ?c = Inr (Some (Array ?a))" by (rule example_cube_2d_facts)
  have a: "shape ?a = [2]" by simp
  have s: "\<not> s_in_bases (unit ?c)" by (simp add: example_cube_2d_facts example_units)
  have u: "uncertainty ?c = Some \<lparr>shape = [2, 2], flat = [1, 1, 2, 2]\<rparr>"
    by (rule example_cube_2d_facts)
  note th = apply_divides_rows_by_exposure_time[OF c sh wf e a s]
  from th u obtain c' where c':
    "apply_exposure_time_correction concat ?c False False = Inr c'"
    by auto
  with th have rows: "shape (data c') = [2, 2]"
    "\<forall>i<2. row 2 i (flat (data c')) = map (\<lambda>x. x / flat ?a ! i) (row 2 i (flat (data ?c)))"
    by blast+
  have "row 2 0 (flat (data c')) = [1, 2]"
    using rows(2)[rule_format, of 0] by (simp add: example_cube_2d_facts row_def)
  moreover have "row 2 1 (flat (data c')) = [3 / 2, 2]"
    using rows(2)[rule_format, of 1] by (simp add: example_cube_2d_facts row_def)
  ultimately show ?thesis using c sh wf e s c' rows(1) by blast
qed

section \<open>Applying and then undoing\<close>

lemma map_zip_map_zip:
  "map h (zip (map g (zip xs ys)) ys) = map (\<lambda>(x, y). h (g (x, y), y)) (zip xs ys)"
proof (induction xs arbitrary: ys)
  case Nil
  then show ?case by simp
next
  case (Cons x xs)
  then show ?case by (cases ys) simp_all
qed

lemma array_op_twice:
  assumes "broadcasts_to e (shape a)" and "wf_array a"
  shows "and_then (array_op f a e) (\<lambda>r. array_op g r e)
           = Inr \<lparr>shape = shape a,
                  flat = map (\<lambda>(x, idx). g (f x (exposure_at e idx)) (exposure_at e idx))
                           (zip (flat a) (all_indices (shape a)))\<rparr>"
proof -
  let ?r = "\<lparr>shape = shape a,
             flat = map (\<lambda>(x, idx). f x (exposure_at e idx))
                      (zip (flat a) (all_indices (shape a)))\<rparr>"
  have r: "array_op f a e = Inr ?r"
    by (rule array_op_same_shape[OF assms])
  have wf: "wf_array ?r"
    using assms(2) by (simp add: wf_array_def all_indices_count)
  have bc: "broadcasts_to e (shape ?r)"
    using assms(1) by simp
  have "array_op g ?r e
          = Inr \<lparr>shape = shape ?r,
                 flat = map (\<lambda>(x, idx). g x (exposure_at e idx))
                          (zip (flat ?r) (all_indices (shape ?r)))\<rparr>"
    by (rule array_op_same_shape[OF bc wf])
  then show ?thesis
    by (simp add: r and_then_def map_zip_map_zip case_prod_unfold del: all_indices.simps)
qed

lemma round_trip_identity:
  assumes "wf_array a"
    and "\<forall>(x, idx) \<in> set (zip (flat a) (all_indices (shape a))). h x idx = x"
  shows "\<lparr>shape = shape a, flat = map (\<lambda>(x, idx). h x idx) (zip (flat a) (all_indices (shape a)))\<rparr>
           = a"
proof -
  have "map (\<lambda>(x, idx). h x idx) (zip (flat a) (all_indices (shape a)))
          = map fst (zip (flat a) (all_indices (shape a)))"
    using assms(2) by (intro map_cong) auto
  also have "\<dots> = flat a"
    using assms(1) by (simp add: wf_array_def all_indices_count)
  finally show ?thesis by simp
qed

lemma constructed_update:
  assumes "constructed c" and "length (shape d) = length (shape (data c))"
  shows "constructed (c\<lparr>data := d, uncertainty := unc, unit := u\<rparr>)"
  using init_constructed_update[OF assms(1), of d u unc] assms(2)
  by (simp add: constructed_def)

lemma exposure_time_update:
  "exposure_time array_str (c\<lparr>data := d, uncertainty := unc, unit := u\<rparr>)
     = exposure_time array_str c"
  by (simp add: exposure_time_def get_axis_coord_def split: option.splits)

lemma reshape_same_shape:
  assumes "shape (data c1) = shape (data c)"
  shows "reshape_exposure_time c1 e = reshape_exposure_time c e"
  using assms by (simp add: reshape_exposure_time_def dimensions_def split: coord_value.splits)

text \<open>
  Where the guard lets the correction through: for a constructed cube with an
  uncertainty array, an exposure time that the reshaping accepts and that broadcasts to
  the shape of the data and of the uncertainty, and a unit without a seconds base,
  applying and then undoing both return; the unit comes back, the shape comes back, and
  every element \<open>x\<close> of the data comes back as \<open>(x / e) * e\<close>, computed in the
  arithmetic of the array with the exposure time \<open>e\<close> that meets it.
\<close>

lemma apply_then_undo:
  assumes "constructed c" and "exposure_time array_str c = Inr (Some e)"
    and "reshape_exposure_time c e = Inr e'"
    and "uncertainty c = Some unc" and "wf_array (data c)" and "wf_array unc"
    and "broadcasts_to e' (shape (data c))" and "broadcasts_to e' (shape unc)"
    and "\<not> s_in_bases (unit c)"
  shows "\<exists>c1 c2.
           apply_exposure_time_correction array_str c False False = Inr c1
         \<and> apply_exposure_time_correction array_str c1 True False = Inr c2
         \<and> unit c2 = unit c
         \<and> shape (data c2) = shape (data c)
         \<and> flat (data c2)
             = map (\<lambda>(x, idx). (x / exposure_at e' idx) * exposure_at e' idx)
                 (zip (flat (data c)) (all_indices (shape (data c))))
         \<and> ((\<forall>(x, idx) \<in> set (zip (flat (data c)) (all_indices (shape (data c)))).
                (x / exposure_at e' idx) * exposure_at e' idx = x)
              \<longrightarrow> data c2 = data c)"
proof -
  let ?div = "\<lambda>a. \<lparr>shape = shape a,
                   flat = map (\<lambda>(x, idx). x / exposure_at e' idx)
                            (zip (flat a) (all_indices (shape a)))\<rparr>"
  let ?both = "\<lambda>a. \<lparr>shape = shape a,
                    flat = map (\<lambda>(x, idx). (x / exposure_at e' idx) * exposure_at e' idx)
                             (zip (flat a) (all_indices (shape a)))\<rparr>"
  let ?c1 = "c\<lparr>data := ?div (data c), uncertainty := Some (?div unc),
               unit := unit_div (unit c) u_s\<rparr>"
  let ?c2 = "?c1\<lparr>data := ?both (data c), uncertainty := Some (?both unc),
                 unit := unit_mul (unit ?c1) u_s\<rparr>"
  have d1: "array_op (\<lambda>x e. x / e) (data c) e' = Inr (?div (data c))"
    by (rule array_op_same_shape[OF assms(7,5)])
  have u1: "array_op (\<lambda>x e. x / e) unc e' = Inr (?div unc)"
    by (rule array_op_same_shape[OF assms(8,6)])
  have step1: "apply_exposure_time_correction array_str c False False = Inr ?c1"
    using apply_unfold[OF assms(1,2,3,4), of False False] assms(9)
    by (simp add: d1 u1 and_then_def del: all_indices.simps)
  have c1: "constructed ?c1"
    by (rule constructed_update[OF assms(1)]) simp
  have e1: "exposure_time array_str ?c1 = Inr (Some e)"
    by (simp only: exposure_time_update assms(2))
  have r1: "reshape_exposure_time ?c1 e = Inr e'"
    using reshape_same_shape[of ?c1 c e] assms(3) by simp
  have unc1: "uncertainty ?c1 = Some (?div unc)"
    by simp
  have g1: "\<not> s_in_bases (unit_mul (unit ?c1) u_s)"
    using assms(9) by (simp add: s_in_bases_div_mul)
  have d2: "array_op (\<lambda>x e. x * e) (data ?c1) e' = Inr (?both (data c))"
    using array_op_twice[OF assms(7,5), of "\<lambda>x e. x / e" "\<lambda>x e. x * e"]
    by (simp add: d1 and_then_def del: all_indices.simps)
  have u2: "array_op (\<lambda>x e. x * e) (?div unc) e' = Inr (?both unc)"
    using array_op_twice[OF assms(8,6), of "\<lambda>x e. x / e" "\<lambda>x e. x * e"]
    by (simp add: u1 and_then_def del: all_indices.simps)
  have step2: "apply_exposure_time_correction array_str ?c1 True False = Inr ?c2"
  proof -
    have chk: "length (shape (?both (data c))) = length (shape (data ?c1))"
      by simp
    show ?thesis
      using apply_unfold[OF c1 e1 r1 unc1, of True False] g1
      by (simp only: d2 u2 and_then_def sum.case if_True if_False simp_thms chk)
  qed
  have un: "unit ?c2 = unit c"
    by (simp add: unit_div_mul_s)
  have sh: "shape (data ?c2) = shape (data c)"
    by simp
  have fl: "flat (data ?c2)
             = map (\<lambda>(x, idx). (x / exposure_at e' idx) * exposure_at e' idx)
                 (zip (flat (data c)) (all_indices (shape (data c))))"
    by simp
  have exact: "data ?c2 = data c"
    if "\<forall>(x, idx) \<in> set (zip (flat (data c)) (all_indices (shape (data c)))).
          (x / exposure_at e' idx) * exposure_at e' idx = x"
    using round_trip_identity[OF assms(5),
        of "\<lambda>x idx. (x / exposure_at e' idx) * exposure_at e' idx"] that
    by simp
  from step1 step2 un sh fl exact show ?thesis by blast
qed

text \<open>
  In exact arithmetic (a field) and with exposure times that are not zero, the round
  trip gives back the data itself.
\<close>

lemma apply_then_undo_exact:
  fixes c :: "('a :: field) cube"
  assumes "constructed c" and "exposure_time array_str c = Inr (Some e)"
    and "reshape_exposure_time c e = Inr e'"
    and "uncertainty c = Some unc" and "wf_array (data c)" and "wf_array unc"
    and "broadcasts_to e' (shape (data c))" and "broadcasts_to e' (shape unc)"
    and "\<not> s_in_bases (unit c)"
    and "\<forall>idx \<in> set (all_indices (shape (data c))). exposure_at e' idx \<noteq> 0"
  shows "\<exists>c1 c2.
           apply_exposure_time_correction array_str c False False = Inr c1
         \<and> apply_exposure_time_correction array_str c1 True False = Inr c2
         \<and> unit c2 = unit c \<and> data c2 = data c"
proof -
  have "\<forall>(x, idx) \<in> set (zip (flat (data c)) (all_indices (shape (data c)))).
          (x / exposure_at e' idx) * exposure_at e' idx = x"
    using assms(10) by (auto dest: set_zip_rightD)
  with apply_then_undo[OF assms(1-9)] show ?thesis by blast
qed


end
